theory Spec2Isabelle
  imports Complex_Main
begin

section \<open>The network map component: data model\<close>

text \<open>
  The component under study is \<^verbatim>\<open>src/components/map/index.tsx\<close>: a force-directed
  drawing of a Zigbee mesh. Its logic is a distance function for the link force
  (\<^verbatim>\<open>getDistance\<close>), the per-frame handler that writes screen positions
  (\<^verbatim>\<open>ticked\<close>, \<^verbatim>\<open>computeLink\<close>), the highlighting of the neighbourhood of a
  selected node (\<^verbatim>\<open>processHighlights\<close>), the force set-up (\<^verbatim>\<open>updateForces\<close>) and
  the zoom handler installed by \<^verbatim>\<open>updateNodes\<close>.

  Numbers. A JavaScript number is an IEEE double: \<^verbatim>\<open>NaN\<close>, an infinity, a zero of
  either sign (\<open>Finite 0\<close> is \<open>+0\<close>) or a finite value. The arithmetic rounds, and
  \<^verbatim>\<open>Math.cos\<close>, \<^verbatim>\<open>Math.sin\<close>, \<^verbatim>\<open>Math.atan2\<close> and \<^verbatim>\<open>Math.sqrt\<close> are the
  engine's; the rounding function and these four are taken as the parameter \<open>engine\<close>
  of every definition that computes with numbers. A coordinate that is missing
  (\<^verbatim>\<open>undefined\<close>) behaves as \<^verbatim>\<open>NaN\<close> in everything the code does with it.
\<close>

datatype number = NaN | Infinity | NegInfinity | NegZero | Finite real

record engine =
  fl :: "real \<Rightarrow> number"
  Math_cos :: "number \<Rightarrow> number"
  Math_sin :: "number \<Rightarrow> number"
  Math_atan2 :: "number \<Rightarrow> number \<Rightarrow> number"
  Math_sqrt :: "number \<Rightarrow> number"

text \<open>
  The operations of IEEE arithmetic. \<open>fl\<close> rounds the exact value of a sum or product
  that is not zero; the special cases are the standard's.
\<close>

definition isZero :: "number \<Rightarrow> bool" where
  "isZero a = (a = NegZero \<or> a = Finite 0)"

definition isInf :: "number \<Rightarrow> bool" where
  "isInf a = (a = Infinity \<or> a = NegInfinity)"

fun isNeg :: "number \<Rightarrow> bool" where
  "isNeg NegInfinity = True"
| "isNeg NegZero = True"
| "isNeg (Finite r) = (r < 0)"
| "isNeg a = False"

fun neg :: "number \<Rightarrow> number" where
  "neg NaN = NaN"
| "neg Infinity = NegInfinity"
| "neg NegInfinity = Infinity"
| "neg NegZero = Finite 0"
| "neg (Finite r) = (if r = 0 then NegZero else Finite (- r))"

fun realOf :: "number \<Rightarrow> real" where
  "realOf (Finite r) = r"
| "realOf a = 0"

definition mul :: "engine \<Rightarrow> number \<Rightarrow> number \<Rightarrow> number" where
  "mul E a b =
     (if a = NaN \<or> b = NaN then NaN
      else if (isZero a \<and> isInf b) \<or> (isInf a \<and> isZero b) then NaN
      else if isInf a \<or> isInf b then (if isNeg a \<noteq> isNeg b then NegInfinity else Infinity)
      else if isZero a \<or> isZero b then (if isNeg a \<noteq> isNeg b then NegZero else Finite 0)
      else fl E (realOf a * realOf b))"

definition add :: "engine \<Rightarrow> number \<Rightarrow> number \<Rightarrow> number" where
  "add E a b =
     (if a = NaN \<or> b = NaN then NaN
      else if isInf a \<and> isInf b then (if a = b then a else NaN)
      else if isInf a then a
      else if isInf b then b
      else if isZero a \<and> isZero b then (if a = NegZero \<and> b = NegZero then NegZero else Finite 0)
      else if isZero a then b
      else if isZero b then a
      else if realOf a + realOf b = 0 then Finite 0
      else fl E (realOf a + realOf b))"

definition sub :: "engine \<Rightarrow> number \<Rightarrow> number \<Rightarrow> number" where
  "sub E a b = add E a (neg b)"

text \<open>
  The order \<^verbatim>\<open>Math.max\<close> and \<^verbatim>\<open>Math.min\<close> use on numbers other than \<^verbatim>\<open>NaN\<close>:
  \<open>-0\<close> is below \<open>+0\<close>.
\<close>

fun numLess :: "number \<Rightarrow> number \<Rightarrow> bool" where
  "numLess NaN b = False"
| "numLess a NaN = False"
| "numLess NegInfinity b = (b \<noteq> NegInfinity)"
| "numLess a NegInfinity = False"
| "numLess a Infinity = (a \<noteq> Infinity)"
| "numLess Infinity b = False"
| "numLess NegZero NegZero = False"
| "numLess NegZero (Finite r) = (0 \<le> r)"
| "numLess (Finite r) NegZero = (r < 0)"
| "numLess (Finite r) (Finite q) = (r < q)"

definition Math_max :: "number \<Rightarrow> number \<Rightarrow> number" where
  "Math_max a b = (if a = NaN \<or> b = NaN then NaN else if numLess a b then b else a)"

definition Math_min :: "number \<Rightarrow> number \<Rightarrow> number" where
  "Math_min a b = (if a = NaN \<or> b = NaN then NaN else if numLess b a then b else a)"

text \<open>
  Objects are compared by identity (\<^verbatim>\<open>===\<close>) in \<^verbatim>\<open>processHighlights\<close>, so a node
  carries the identity of its object (\<open>oid\<close>) beside the fields the code reads. After
  the link force has resolved the links, \<^verbatim>\<open>source\<close> and \<^verbatim>\<open>target\<close> of a link are
  node objects. The field \<^verbatim>\<open>repeated\<close> of a link is optional; where it is absent the
  code's tests of it fail, as they do for \<open>False\<close>. \<open>relationship\<close> is the number of
  the link's Zigbee relationship.
\<close>

record NodeI =
  oid :: nat
  ieeeAddr :: string
  x :: number
  y :: number

type_synonym Source = NodeI
type_synonym Target = NodeI

record LinkI =
  source :: Source
  target :: Target
  sourceIeeeAddr :: string
  targetIeeeAddr :: string
  linkType :: string
  depth :: number
  repeated :: bool
  relationship :: int

record GraphI =
  nodes :: "NodeI list"
  links :: "LinkI list"

text \<open>
  A zoom transform of d3-zoom: scale \<open>zoom_k\<close>, then translate by
  \<open>(zoom_x, zoom_y)\<close>. \<^verbatim>\<open>applyX(v)\<close> is \<^verbatim>\<open>v * this.k + this.x\<close>.
\<close>

record ZoomTransform =
  zoom_k :: number
  zoom_x :: number
  zoom_y :: number

definition zoomIdentity :: ZoomTransform where
  "zoomIdentity = \<lparr>zoom_k = Finite 1, zoom_x = Finite 0, zoom_y = Finite 0\<rparr>"

definition applyX :: "engine \<Rightarrow> ZoomTransform \<Rightarrow> number \<Rightarrow> number" where
  "applyX E t v = add E (mul E v (zoom_k t)) (zoom_x t)"

definition applyY :: "engine \<Rightarrow> ZoomTransform \<Rightarrow> number \<Rightarrow> number" where
  "applyY E t v = add E (mul E v (zoom_k t)) (zoom_y t)"

subsection \<open>The document: elements, selections, attributes\<close>

text \<open>
  The handlers return nothing: all they do is write attributes and styles of the SVG
  elements of the d3 selections they are given. An element is its bound datum, its
  attributes and its styles; a selection is the list of its elements; the document state
  the handlers work on is the four selections \<^verbatim>\<open>updateNodes\<close> makes, taken to be
  disjoint (they are selected by four different classes).

  A value written to an attribute is a string assembled from numbers by a template
  literal; the model keeps the numbers and names the template (\<open>NumberAttr v\<close> is the
  number \<open>v\<close> given as the value; \<open>Num\<close> is a numeric literal given as the value):
  \<^item> \<open>PathLine x1 y1 x2 y2\<close> is \<^verbatim>\<open>`M ${x1} ${y1} L ${x2} ${y2}`\<close>,
  \<^item> \<open>PathArc x1 y1 dr x2 y2\<close> is \<^verbatim>\<open>`M${x1},${y1} A${dr},${dr} 0 0, 1${x2},${y2}`\<close>,
  \<^item> \<open>Translate a b\<close> is \<^verbatim>\<open>`translate(${a}, ${b})`\<close>,
  \<^item> \<open>TransformOf t\<close> is the transform \<open>t\<close> itself, given as the value.
\<close>

datatype attrval =
    Num real
  | Str string
  | NumberAttr number
  | PathLine number number number number
  | PathArc number number number number number
  | Translate number number
  | TransformOf ZoomTransform

record 'd element =
  datum :: 'd
  attrs :: "string \<rightharpoonup> attrval"
  styles :: "string \<rightharpoonup> attrval"

type_synonym 'd Selection = "'d element list"

record Dom =
  everything :: "unit Selection"
  node :: "NodeI Selection"
  link :: "LinkI Selection"
  linkLabel :: "LinkI Selection"

text \<open>
  \<^verbatim>\<open>selection.attr(name, f)\<close> and \<^verbatim>\<open>selection.style(name, f)\<close> of d3-selection:
  for each element, the value of \<open>f\<close> at the element's datum is stored under
  \<open>name\<close>. A constant value is the constant function.
\<close>

definition attr :: "string \<Rightarrow> ('d \<Rightarrow> attrval) \<Rightarrow> 'd Selection \<Rightarrow> 'd Selection" where
  "attr name f sel = map (\<lambda>e. e\<lparr>attrs := (attrs e)(name \<mapsto> f (datum e))\<rparr>) sel"

definition style :: "string \<Rightarrow> ('d \<Rightarrow> attrval) \<Rightarrow> 'd Selection \<Rightarrow> 'd Selection" where
  "style name f sel = map (\<lambda>e. e\<lparr>styles := (styles e)(name \<mapsto> f (datum e))\<rparr>) sel"

section \<open>The distance function\<close>

text \<open>
  \<^verbatim>\<open>~\<close> converts its operand with
  ToInt32 (truncate towards zero, reduce modulo \<open>2^32\<close> into the signed 32-bit range;
  \<^verbatim>\<open>NaN\<close> and the infinities give 0) and complements the bits: \<^verbatim>\<open>~n = -n - 1\<close>.
\<close>

definition Math_trunc :: "real \<Rightarrow> int" where
  "Math_trunc r = (if 0 \<le> r then \<lfloor>r\<rfloor> else \<lceil>r\<rceil>)"

fun toInt32 :: "number \<Rightarrow> int" where
  "toInt32 (Finite r) =
     (let int32bit = Math_trunc r mod 2 ^ 32
      in if 2 ^ 31 \<le> int32bit then int32bit - 2 ^ 32 else int32bit)"
| "toInt32 v = 0"

definition bitNot :: "number \<Rightarrow> int" where
  "bitNot v = - toInt32 v - 1"

text \<open>
  The table is an object literal, so a look-up \<^verbatim>\<open>distancesMap[key]\<close> finds the value
  of an own key, or else a member the object inherits from \<^verbatim>\<open>Object.prototype\<close> (a
  function, or the prototype itself for \<^verbatim>\<open>__proto__\<close>), or else nothing
  (\<^verbatim>\<open>undefined\<close>). \<^verbatim>\<open>??\<close> supplies 200 only where the look-up finds nothing.
\<close>

definition distancesMap :: "string \<rightharpoonup> int" where
  "distancesMap =
     [''BrokenLink'' \<mapsto> 450,
      ''Router2Router'' \<mapsto> 300,
      ''Coordinator2Router'' \<mapsto> 400,
      ''Coordinator2EndDevice'' \<mapsto> 100,
      ''EndDevice2Router'' \<mapsto> 100]"

definition objectPrototypeMembers :: "string list" where
  "objectPrototypeMembers =
     [''constructor'', ''hasOwnProperty'', ''isPrototypeOf'', ''propertyIsEnumerable'',
      ''toLocaleString'', ''toString'', ''valueOf'', ''__proto__'',
      ''__defineGetter__'', ''__defineSetter__'', ''__lookupGetter__'', ''__lookupSetter__'']"

datatype property = Own int | Inherited | Undefined

definition getProperty :: "string \<Rightarrow> property" where
  "getProperty key =
     (case distancesMap key of
        Some v \<Rightarrow> Own v
      | None \<Rightarrow> if key \<in> set objectPrototypeMembers then Inherited else Undefined)"

text \<open>
  With a number for \<open>distance\<close> the result is a number, and an integer: \<open>depth\<close> is a
  signed 32-bit value, so \<open>50 * depth + distance\<close> is far below \<open>2^53\<close> in size and
  the double arithmetic is exact. With an inherited member for \<open>distance\<close>, \<^verbatim>\<open>+\<close>
  concatenates strings and the result is a string (\<open>StringResult\<close>; its text depends
  on the engine).
\<close>

datatype result = Number int | StringResult

definition getDistance :: "LinkI \<Rightarrow> result" where
  "getDistance d =
     (let distance = (case getProperty (linkType d) of Undefined \<Rightarrow> Own 200 | p \<Rightarrow> p);
          depth = bitNot (Finite (of_int (bitNot (Math_min (Finite 4) (depth d)))))
      in case distance of
           Own v \<Rightarrow> Number (50 * depth + v)
         | _ \<Rightarrow> StringResult)"

text \<open>
  The table in the words of the specification: the five named link types, 200 for any
  other.
\<close>

definition tableDistance :: "string \<Rightarrow> int" where
  "tableDistance t =
     (if t = ''BrokenLink'' then 450
      else if t = ''Router2Router'' then 300
      else if t = ''Coordinator2Router'' then 400
      else if t = ''Coordinator2EndDevice'' then 100
      else if t = ''EndDevice2Router'' then 100
      else 200)"

section \<open>The tick handler\<close>

definition angle :: "engine \<Rightarrow> Source \<Rightarrow> Target \<Rightarrow> number" where
  "angle E s t = Math_atan2 E (sub E (y t) (y s)) (sub E (x t) (x s))"

definition xpos :: "engine \<Rightarrow> number \<Rightarrow> Source \<Rightarrow> Target \<Rightarrow> number" where
  "xpos E offset s t = add E (mul E offset (Math_cos E (angle E s t))) (x s)"

definition ypos :: "engine \<Rightarrow> number \<Rightarrow> Source \<Rightarrow> Target \<Rightarrow> number" where
  "ypos E offset s t = add E (mul E offset (Math_sin E (angle E s t))) (y s)"

definition computeLink ::
  "engine \<Rightarrow> LinkI \<Rightarrow> ZoomTransform \<Rightarrow> number \<Rightarrow> number \<Rightarrow> number \<Rightarrow> attrval" where
  "computeLink E d transform radius width height =
     (let src = source d;
          dst = target d;
          x1 = applyX E transform (Math_max radius (Math_min (sub E width radius) (x src)));
          y1 = applyY E transform (Math_max radius (Math_min (sub E height radius) (y src)));
          x2 = applyX E transform (Math_max radius (Math_min (sub E width radius) (x dst)));
          y2 = applyY E transform (Math_max radius (Math_min (sub E height radius) (y dst)));
          dx = sub E x2 x1;
          dy = sub E y2 y1;
          dr = Math_sqrt E (add E (mul E dx dx) (mul E dy dy))
      in if repeated d then PathArc x1 y1 dr x2 y2 else PathLine x1 y1 x2 y2)"

text \<open>
  The closure \<^verbatim>\<open>computeTransform\<close> of \<^verbatim>\<open>ticked\<close>, with what it captures.
  \<^verbatim>\<open>32 / 2\<close> is 16 exactly.
\<close>

definition computeTransform ::
  "engine \<Rightarrow> ZoomTransform \<Rightarrow> number \<Rightarrow> number \<Rightarrow> number \<Rightarrow> NodeI \<Rightarrow> attrval" where
  "computeTransform E transform radius width height d =
     (let imgXShift = Finite (32 / 2);
          imgYShift = Finite (32 / 2);
          nodeX = sub E (Math_max radius (Math_min (sub E width radius) (applyX E transform (x d)))) imgXShift;
          nodeY = sub E (Math_max radius (Math_min (sub E height radius) (applyY E transform (y d)))) imgYShift
      in Translate nodeX nodeY)"

definition ticked :: "engine \<Rightarrow> ZoomTransform \<Rightarrow> number \<Rightarrow> number \<Rightarrow> Dom \<Rightarrow> Dom" where
  "ticked E transform width height doc =
     (let radius = Finite 40;
          link' = attr ''d'' (\<lambda>d. computeLink E d transform radius width height) (link doc);
          linkLabel' =
            attr ''y'' (\<lambda>d. NumberAttr (applyY E transform (ypos E (if repeated d then Finite 30 else Finite 60) (source d) (target d))))
              (attr ''x'' (\<lambda>d. NumberAttr (applyX E transform (xpos E (if repeated d then Finite 30 else Finite 60) (source d) (target d))))
                (attr ''text-anchor'' (\<lambda>d. Str (if repeated d then ''start'' else ''end''))
                  (linkLabel doc)));
          node' = attr ''transform'' (computeTransform E transform radius width height) (node doc)
      in doc\<lparr>node := node', link := link', linkLabel := linkLabel'\<rparr>)"

section \<open>Highlighting\<close>

text \<open>
  The index is a set of strings \<^verbatim>\<open>a + "," + b\<close>, filled from the nodes of the graph
  and then from the links handed in. \<open>selectedNode\<close> is \<^verbatim>\<open>null\<close> (\<open>None\<close>) or a
  node object; \<^verbatim>\<open>===\<close> on objects compares identities.
\<close>

definition linkedByIndex :: "GraphI \<Rightarrow> LinkI list \<Rightarrow> string set" where
  "linkedByIndex networkGraph links' =
     fold (\<lambda>l S. insert (sourceIeeeAddr l @ '','' @ targetIeeeAddr l) S) links'
       (fold (\<lambda>n S. insert (ieeeAddr n @ '','' @ ieeeAddr n) S) (nodes networkGraph) {})"

definition neighboring :: "string set \<Rightarrow> Source \<Rightarrow> Target \<Rightarrow> bool" where
  "neighboring index a b = (ieeeAddr a @ '','' @ ieeeAddr b \<in> index)"

definition strictEq :: "NodeI \<Rightarrow> NodeI option \<Rightarrow> bool" where
  "strictEq a b = (case b of None \<Rightarrow> False | Some n \<Rightarrow> oid a = oid n)"

definition computeOpacity :: "NodeI option \<Rightarrow> LinkI \<Rightarrow> attrval" where
  "computeOpacity selectedNode l =
     Num (if strictEq (source l) selectedNode \<or> strictEq (target l) selectedNode then 1 else 0.15)"

definition processHighlights :: "GraphI \<Rightarrow> LinkI list \<Rightarrow> NodeI option \<Rightarrow> Dom \<Rightarrow> Dom" where
  "processHighlights networkGraph links' selectedNode doc =
     (let index = linkedByIndex networkGraph links'
      in case selectedNode of
           Some sel \<Rightarrow>
             doc\<lparr>node := style ''opacity''
                      (\<lambda>ob. Num (if neighboring index sel ob \<or> neighboring index ob sel then 1 else 0.15))
                      (node doc),
                 link := style ''stroke-opacity'' (computeOpacity selectedNode) (link doc),
                 linkLabel := style ''opacity'' (computeOpacity selectedNode) (linkLabel doc)\<rparr>
         | None \<Rightarrow>
             doc\<lparr>node := style ''opacity'' (\<lambda>ob. Num 1) (node doc),
                 link := style ''stroke-opacity'' (\<lambda>l. Num 1) (link doc),
                 linkLabel := style ''opacity'' (\<lambda>l. Num 1) (linkLabel doc)\<rparr>)"

section \<open>The component: forces and handlers\<close>

text \<open>
  A force of d3-force is what it is made by (\<open>kind\<close>) and the settings given to it
  by its constructor and its setters; a setting that is absent is left at the library's
  default. A simulation is its named forces. The component holds the current zoom
  transform (\<^verbatim>\<open>this.transform\<close>) and the simulation (\<^verbatim>\<open>this.simulation\<close>).
\<close>

datatype setting =
    Value real
  | IdAccessor "NodeI \<Rightarrow> string"
  | DistanceAccessor "LinkI \<Rightarrow> result"

datatype forceKind = KLink | KManyBodyReuse | KCollide | KCenter | KX | KY

record Force =
  kind :: forceKind
  settings :: "string \<rightharpoonup> setting"

record Simulation =
  forces :: "string \<rightharpoonup> Force"

record MapComponent =
  this_transform :: ZoomTransform
  this_simulation :: Simulation

definition forceLink :: Force where
  "forceLink = \<lparr>kind = KLink, settings = Map.empty\<rparr>"

definition forceManyBodyReuse :: Force where
  "forceManyBodyReuse = \<lparr>kind = KManyBodyReuse, settings = Map.empty\<rparr>"

definition forceCollide :: "real \<Rightarrow> Force" where
  "forceCollide r = \<lparr>kind = KCollide, settings = [''radius'' \<mapsto> Value r]\<rparr>"

definition forceCenter :: "real \<Rightarrow> real \<Rightarrow> Force" where
  "forceCenter cx cy = \<lparr>kind = KCenter, settings = [''x'' \<mapsto> Value cx, ''y'' \<mapsto> Value cy]\<rparr>"

definition forceX :: Force where
  "forceX = \<lparr>kind = KX, settings = Map.empty\<rparr>"

definition forceY :: Force where
  "forceY = \<lparr>kind = KY, settings = Map.empty\<rparr>"

definition set_id :: "(NodeI \<Rightarrow> string) \<Rightarrow> Force \<Rightarrow> Force" where
  "set_id f F = F\<lparr>settings := (settings F)(''id'' \<mapsto> IdAccessor f)\<rparr>"

definition distance :: "(LinkI \<Rightarrow> result) \<Rightarrow> Force \<Rightarrow> Force" where
  "distance f F = F\<lparr>settings := (settings F)(''distance'' \<mapsto> DistanceAccessor f)\<rparr>"

definition strength :: "real \<Rightarrow> Force \<Rightarrow> Force" where
  "strength v F = F\<lparr>settings := (settings F)(''strength'' \<mapsto> Value v)\<rparr>"

definition distanceMin :: "real \<Rightarrow> Force \<Rightarrow> Force" where
  "distanceMin v F = F\<lparr>settings := (settings F)(''distanceMin'' \<mapsto> Value v)\<rparr>"

definition distanceMax :: "real \<Rightarrow> Force \<Rightarrow> Force" where
  "distanceMax v F = F\<lparr>settings := (settings F)(''distanceMax'' \<mapsto> Value v)\<rparr>"

definition forceSimulation :: Simulation where
  "forceSimulation = \<lparr>forces = Map.empty\<rparr>"

definition force :: "string \<Rightarrow> Force \<Rightarrow> Simulation \<Rightarrow> Simulation" where
  "force name F sim = sim\<lparr>forces := (forces sim)(name \<mapsto> F)\<rparr>"

definition updateForces :: "MapComponent \<Rightarrow> real \<Rightarrow> real \<Rightarrow> MapComponent" where
  "updateForces self width height =
     (let linkForce = strength 0.2 (distance getDistance (set_id (\<lambda>d. ieeeAddr d) forceLink));
          chargeForce = strength (- 200) (distanceMax 1000 (distanceMin 200 forceManyBodyReuse));
          repelForce = distanceMin 20 (distanceMax 50 (strength (- 140) forceManyBodyReuse));
          collisionForce = strength 1 (forceCollide 40);
          centerForce = forceCenter (width / 2) (height / 2)
      in self\<lparr>this_simulation :=
           force ''y'' forceY
             (force ''x'' forceX
               (force ''center'' centerForce
                 (force ''repelForce'' repelForce
                   (force ''collisionForce'' collisionForce
                     (force ''charge'' chargeForce
                       (force ''link'' linkForce forceSimulation))))))\<rparr>)"

text \<open>
  \<^verbatim>\<open>updateNodes\<close> selects the elements, keeps the links whose relationship is among
  the visible ones, wires the simulation to the tick handler, installs the zoom handler
  and highlights. Its two handlers are given as functions of the component and the
  document at the time they run; \<open>updateNodes\<close> itself is what the call does to the
  document, which is the highlighting. Starting the simulation is the library's part.
\<close>

definition onTick ::
  "engine \<Rightarrow> number \<Rightarrow> number \<Rightarrow> MapComponent \<times> Dom \<Rightarrow> MapComponent \<times> Dom" where
  "onTick E width height w =
     (case w of (self, doc) \<Rightarrow> (self, ticked E (this_transform self) width height doc))"

definition zoomHandler ::
  "engine \<Rightarrow> number \<Rightarrow> number \<Rightarrow> ZoomTransform \<Rightarrow> MapComponent \<times> Dom \<Rightarrow> MapComponent \<times> Dom" where
  "zoomHandler E width height transform w =
     (case w of (self, doc) \<Rightarrow>
        (let doc1 = doc\<lparr>everything := attr ''transform'' (\<lambda>d. TransformOf transform) (everything doc)\<rparr>;
             self1 = self\<lparr>this_transform := transform\<rparr>
         in (self1, ticked E transform width height doc1)))"

definition updateNodes :: "GraphI \<Rightarrow> int list \<Rightarrow> NodeI option \<Rightarrow> Dom \<Rightarrow> Dom" where
  "updateNodes networkGraph visibleLinks selectedNode doc =
     (let links' = filter (\<lambda>l. relationship l \<in> set visibleLinks) (links networkGraph)
      in processHighlights networkGraph links' selectedNode doc)"

section \<open>Doubles\<close>

text \<open>
  The finite values a double can have, and what every IEEE engine does: an operation whose
  exact result is a double returns it.
\<close>

definition isDouble :: "real \<Rightarrow> bool" where
  "isDouble v =
     (\<exists>m :: int. \<exists>k :: nat. \<bar>m\<bar> < 2 ^ 53
        \<and> ((k \<le> 971 \<and> v = of_int m * 2 ^ k) \<or> (k \<le> 1074 \<and> v = of_int m / 2 ^ k)))"

definition roundsExactly :: "engine \<Rightarrow> bool" where
  "roundsExactly E = (\<forall>v. isDouble v \<longrightarrow> fl E v = Finite v)"

fun isNumber :: "number \<Rightarrow> bool" where
  "isNumber NaN = False"
| "isNumber (Finite r) = isDouble r"
| "isNumber a = True"

section \<open>Sample data\<close>

text \<open>
  An engine for concrete evaluation: it computes exactly. On the sample data below every
  sum and product that is evaluated is a double, so an IEEE engine agrees with it there.
\<close>

definition atan2_exact :: "real \<Rightarrow> real \<Rightarrow> real" where
  "atan2_exact yv xv =
     (if 0 < xv then arctan (yv / xv)
      else if xv < 0 then (if 0 \<le> yv then arctan (yv / xv) + pi else arctan (yv / xv) - pi)
      else if 0 < yv then pi / 2
      else if yv < 0 then - pi / 2
      else 0)"

definition exactEngine :: engine where
  "exactEngine =
     \<lparr>fl = Finite,
      Math_cos = (\<lambda>a. case a of NaN \<Rightarrow> NaN | Infinity \<Rightarrow> NaN | NegInfinity \<Rightarrow> NaN
                         | a \<Rightarrow> Finite (cos (realOf a))),
      Math_sin = (\<lambda>a. case a of NaN \<Rightarrow> NaN | Infinity \<Rightarrow> NaN | NegInfinity \<Rightarrow> NaN
                         | NegZero \<Rightarrow> NegZero | a \<Rightarrow> Finite (sin (realOf a))),
      Math_atan2 = (\<lambda>a b. case (a, b) of (Finite yv, Finite xv) \<Rightarrow> Finite (atan2_exact yv xv)
                         | _ \<Rightarrow> NaN),
      Math_sqrt = (\<lambda>a. case a of Finite r \<Rightarrow> (if r < 0 then NaN else Finite (sqrt r))
                         | NegZero \<Rightarrow> NegZero | Infinity \<Rightarrow> Infinity | _ \<Rightarrow> NaN)\<rparr>"

text \<open>Three devices with two links, and a fourth device that has no position yet.\<close>

definition nodeA :: NodeI where
  "nodeA = \<lparr>oid = 1, ieeeAddr = ''0x00124b0001'', x = Finite 100, y = Finite 50\<rparr>"

definition nodeB :: NodeI where
  "nodeB = \<lparr>oid = 2, ieeeAddr = ''0x00124b0002'', x = Finite 400, y = Finite 450\<rparr>"

definition nodeC :: NodeI where
  "nodeC = \<lparr>oid = 3, ieeeAddr = ''0x00124b0003'', x = Finite 700, y = Finite 50\<rparr>"

definition nodeD :: NodeI where
  "nodeD = \<lparr>oid = 4, ieeeAddr = ''0x00124b0004'', x = NaN, y = NaN\<rparr>"

definition linkAB :: LinkI where
  "linkAB = \<lparr>source = nodeA, target = nodeB,
              sourceIeeeAddr = ''0x00124b0001'', targetIeeeAddr = ''0x00124b0002'',
              linkType = ''Coordinator2Router'', depth = Finite 1, repeated = False,
              relationship = 1\<rparr>"

definition linkBC :: LinkI where
  "linkBC = \<lparr>source = nodeB, target = nodeC,
              sourceIeeeAddr = ''0x00124b0002'', targetIeeeAddr = ''0x00124b0003'',
              linkType = ''Router2Router'', depth = Finite 2, repeated = True,
              relationship = 2\<rparr>"

definition sampleGraph :: GraphI where
  "sampleGraph = \<lparr>nodes = [nodeA, nodeB, nodeC], links = [linkAB, linkBC]\<rparr>"

text \<open>A document whose elements carry the sample data and no attribute or style yet.\<close>

definition blank :: "'d \<Rightarrow> 'd element" where
  "blank d = \<lparr>datum = d, attrs = Map.empty, styles = Map.empty\<rparr>"

definition sampleDoc :: Dom where
  "sampleDoc = \<lparr>everything = [blank ()],
                 node = [blank nodeA, blank nodeB, blank nodeC],
                 link = [blank linkAB, blank linkBC],
                 linkLabel = [blank linkAB, blank linkBC]\<rparr>"

text \<open>The sample graph without its third device, and a document that shows the fourth.\<close>

definition smallGraph :: GraphI where
  "smallGraph = \<lparr>nodes = [nodeA, nodeB], links = [linkAB]\<rparr>"

definition unplacedDoc :: Dom where
  "unplacedDoc = \<lparr>everything = [blank ()], node = [blank nodeD], link = [], linkLabel = []\<rparr>"

text \<open>
  A viewport so wide that its sums are no doubles: an engine that rounds \<open>2^60 - 40\<close>
  and \<open>2^60 - 16\<close> to \<open>2^60\<close>, as IEEE arithmetic does, and a node at \<open>2^60\<close>.
\<close>

definition roundingEngine :: engine where
  "roundingEngine =
     exactEngine\<lparr>fl := (\<lambda>v. if v = 2 ^ 60 - 40 \<or> v = 2 ^ 60 - 16 then Finite (2 ^ 60) else Finite v)\<rparr>"

definition nodeE :: NodeI where
  "nodeE = \<lparr>oid = 5, ieeeAddr = ''0x00124b0005'', x = Finite (2 ^ 60), y = Finite 50\<rparr>"

definition farDoc :: Dom where
  "farDoc = \<lparr>everything = [blank ()], node = [blank nodeE], link = [], linkLabel = []\<rparr>"

definition zoomed :: ZoomTransform where
  "zoomed = \<lparr>zoom_k = Finite 2, zoom_x = Finite 10, zoom_y = Finite 20\<rparr>"

definition component0 :: MapComponent where
  "component0 = \<lparr>this_transform = zoomIdentity, this_simulation = forceSimulation\<rparr>"

section \<open>Properties of the distance function\<close>

lemma Math_trunc_of_int: "Math_trunc (of_int n) = n"
  by (simp add: Math_trunc_def)

lemma toInt32_range: "- (2 ^ 31) \<le> toInt32 v \<and> toInt32 v < 2 ^ 31"
proof (cases v)
  case (Finite r)
  have "0 \<le> Math_trunc r mod 2 ^ 32" "Math_trunc r mod 2 ^ 32 < 2 ^ 32"
    by simp_all
  then show ?thesis using Finite by (auto simp: Let_def)
qed simp_all

lemma mod32_nonneg:
  fixes n :: int
  assumes "0 \<le> n" "n < 2147483648"
  shows "n mod 4294967296 = n"
  using assms by (intro mod_pos_pos_trivial) simp_all

lemma mod32_neg:
  fixes n :: int
  assumes "- 2147483648 \<le> n" "n < 0"
  shows "n mod 4294967296 = n + 4294967296"
proof -
  have "(n + 4294967296) mod 4294967296 = n + 4294967296"
    using assms by (intro mod_pos_pos_trivial) simp_all
  then show ?thesis by simp
qed

text \<open>ToInt32 leaves a value of the signed 32-bit range as it is.\<close>

lemma toInt32_small:
  assumes "- (2 ^ 31) \<le> n" "n < 2 ^ 31"
  shows "toInt32 (Finite (of_int n)) = n"
proof (cases "0 \<le> n")
  case True
  then show ?thesis using assms by (simp add: Math_trunc_of_int Let_def mod32_nonneg)
next
  case False
  then show ?thesis using assms by (simp add: Math_trunc_of_int Let_def mod32_neg)
qed

text \<open>The idiom \<^verbatim>\<open>~~v\<close> is ToInt32.\<close>

lemma bitNot_bitNot: "bitNot (Finite (of_int (bitNot v))) = toInt32 v"
proof -
  have r: "- (2 ^ 31) \<le> toInt32 v" "toInt32 v < 2 ^ 31"
    using toInt32_range [of v] by simp_all
  then have "toInt32 (Finite (of_int (- toInt32 v - 1))) = - toInt32 v - 1"
    by (intro toInt32_small) simp_all
  then show ?thesis by (simp add: bitNot_def)
qed

lemma getProperty_table:
  assumes "t \<notin> set objectPrototypeMembers"
  shows "(case getProperty t of Undefined \<Rightarrow> Own 200 | p \<Rightarrow> p) = Own (tableDistance t)"
  using assms by (simp add: getProperty_def distancesMap_def tableDistance_def)

lemma getProperty_inherited:
  assumes "t \<in> set objectPrototypeMembers"
  shows "getProperty t = Inherited"
  using assms by (auto simp: getProperty_def distancesMap_def objectPrototypeMembers_def)

lemma getDistance_toInt32:
  assumes "linkType d \<notin> set objectPrototypeMembers"
  shows "getDistance d =
           Number (tableDistance (linkType d) + 50 * toInt32 (Math_min (Finite 4) (depth d)))"
  using getProperty_table [OF assms] by (simp add: getDistance_def Let_def bitNot_bitNot)

lemma getDistance_inherited:
  assumes "linkType d \<in> set objectPrototypeMembers"
  shows "getDistance d = StringResult"
  using getProperty_inherited [OF assms] by (simp add: getDistance_def Let_def)

lemma toInt32_Math_trunc:
  assumes "- (2 ^ 31) - 1 < r" "r < 2 ^ 31"
  shows "toInt32 (Finite r) = Math_trunc r"
proof -
  have "- (2 ^ 31) \<le> Math_trunc r" "Math_trunc r < 2 ^ 31"
    using assms unfolding Math_trunc_def
    by (auto simp: le_floor_iff floor_less_iff le_ceiling_iff ceiling_less_iff split: if_splits)
  then have "toInt32 (Finite (of_int (Math_trunc r))) = Math_trunc r"
    by (rule toInt32_small)
  then show ?thesis by (simp add: Math_trunc_of_int)
qed

lemma Math_min_4:
  "Math_min (Finite 4) Infinity = Finite 4"
  "Math_min (Finite 4) (Finite r) = Finite (min 4 r)"
  by (simp_all add: Math_min_def min_def)

lemma getDistance_in_range:
  assumes "linkType d \<notin> set objectPrototypeMembers"
    and "depth d = Infinity \<or> depth d = NegZero
         \<or> (\<exists>r. depth d = Finite r \<and> - (2 ^ 31) - 1 < r)"
  shows "Math_min (Finite 4) (depth d) \<notin> {NaN, Infinity, NegInfinity}
       \<and> getDistance d =
           Number (tableDistance (linkType d) + 50 * Math_trunc (realOf (Math_min (Finite 4) (depth d))))"
proof -
  note g = getDistance_toInt32 [OF assms(1)]
  from assms(2) consider "depth d = Infinity" | "depth d = NegZero"
    | r where "depth d = Finite r" "- (2 ^ 31) - 1 < r" by blast
  then show ?thesis
  proof cases
    case 1
    then show ?thesis using toInt32_Math_trunc [of 4] by (simp add: g Math_min_4)
  next
    case 2
    then show ?thesis by (simp add: g Math_min_def Math_trunc_def)
  next
    case 3
    have "toInt32 (Finite (min 4 r)) = Math_trunc (min 4 r)"
      using 3(2) by (intro toInt32_Math_trunc) auto
    then show ?thesis using 3(1) by (simp add: g Math_min_4)
  qed
qed

lemma getDistance_nat_depth:
  assumes "linkType d \<notin> set objectPrototypeMembers"
  shows "getDistance (d\<lparr>depth := Finite (real n)\<rparr>) =
           Number (tableDistance (linkType d) + 50 * int (min 4 n))"
proof -
  have "Math_trunc (min 4 (real n)) = int (min 4 n)"
    by (simp add: Math_trunc_def min_def)
  moreover have "toInt32 (Finite (min 4 (real n))) = Math_trunc (min 4 (real n))"
    by (intro toInt32_Math_trunc) auto
  ultimately show ?thesis
    using getDistance_toInt32 [of "d\<lparr>depth := Finite (real n)\<rparr>"] assms
    by (simp add: Math_min_4)
qed

text \<open>
  Claim C1, as the code has it. For every link whose type does not name a member that the
  table inherits from \<^verbatim>\<open>Object.prototype\<close>, and whose depth is \<open>+Infinity\<close> or a finite
  number (a zero of either sign too) above \<open>-2^31 - 1\<close>: \<open>min(4, depth)\<close> is a finite
  number, and \<open>getDistance\<close>
  returns the table's distance for the link type (450, 300, 400, 100, 100 for the five
  named types, 200 for any other) plus 50 times its truncation, a function of the link
  type and the depth alone.
\<close>

theorem getDistance_table_depth:
  assumes "linkType d \<notin> set objectPrototypeMembers"
    and "depth d = Infinity \<or> depth d = NegZero
         \<or> (\<exists>r. depth d = Finite r \<and> - (2 ^ 31) - 1 < r)"
  shows "Math_min (Finite 4) (depth d) \<notin> {NaN, Infinity, NegInfinity}
       \<and> getDistance d =
           Number (tableDistance (linkType d) + 50 * Math_trunc (realOf (Math_min (Finite 4) (depth d))))"
  using assms by (rule getDistance_in_range)

theorem getDistance_table_depth_witness:
  "linkType (linkAB\<lparr>depth := Finite 2.5\<rparr>) \<notin> set objectPrototypeMembers
   \<and> depth (linkAB\<lparr>depth := Finite 2.5\<rparr>) = Finite 2.5 \<and> - (2 ^ 31) - 1 < (2.5 :: real)
   \<and> getDistance (linkAB\<lparr>depth := Finite 2.5\<rparr>) = Number 500
   \<and> depth (linkAB\<lparr>depth := Infinity\<rparr>) = Infinity
   \<and> getDistance (linkAB\<lparr>depth := Infinity\<rparr>) = Number 600"
proof -
  have t: "linkType (linkAB\<lparr>depth := v\<rparr>) \<notin> set objectPrototypeMembers" for v
    by (simp add: linkAB_def objectPrototypeMembers_def)
  have tab: "tableDistance (linkType (linkAB\<lparr>depth := v\<rparr>)) = 400" for v
    by (simp add: linkAB_def tableDistance_def)
  have h1: "depth (linkAB\<lparr>depth := Finite 2.5\<rparr>) = Infinity
      \<or> depth (linkAB\<lparr>depth := Finite 2.5\<rparr>) = NegZero
      \<or> (\<exists>r. depth (linkAB\<lparr>depth := Finite 2.5\<rparr>) = Finite r \<and> - (2 ^ 31) - 1 < r)"
    by (intro disjI2 exI [of _ "2.5"]) simp
  have h2: "depth (linkAB\<lparr>depth := Infinity\<rparr>) = Infinity
      \<or> depth (linkAB\<lparr>depth := Infinity\<rparr>) = NegZero
      \<or> (\<exists>r. depth (linkAB\<lparr>depth := Infinity\<rparr>) = Finite r \<and> - (2 ^ 31) - 1 < r)"
    by simp
  from getDistance_table_depth [OF t h1, THEN conjunct2]
  have r1: "getDistance (linkAB\<lparr>depth := Finite 2.5\<rparr>) = Number 500"
    unfolding tab by (simp add: Math_min_4 Math_trunc_def)
  from getDistance_table_depth [OF t h2, THEN conjunct2]
  have r2: "getDistance (linkAB\<lparr>depth := Infinity\<rparr>) = Number 600"
    unfolding tab by (simp add: Math_min_4 Math_trunc_def)
  from t [of "Finite 2.5"] r1 r2 show ?thesis by simp
qed

text \<open>
  Claim C1 as stated fails at the depth \<open>-3000000000\<close>: \<^verbatim>\<open>~~\<close> turns it into
  1294967296, so the code returns 64748365200, where the table's distance plus 50 times
  the truncation of \<open>min(4, depth)\<close> is \<open>-149999999600\<close>. It fails at the link type
  \<^verbatim>\<open>constructor\<close> too, where the result is a string.
\<close>

theorem getDistance_claim_counterexample:
  "getDistance (linkAB\<lparr>depth := Finite (- 3000000000)\<rparr>) = Number 64748365200
   \<and> tableDistance (linkType linkAB) + 50 * Math_trunc (min 4 (- 3000000000)) = - 149999999600
   \<and> getDistance (linkAB\<lparr>linkType := ''constructor''\<rparr>) = StringResult"
proof -
  have t: "linkType (linkAB\<lparr>depth := Finite (- 3000000000)\<rparr>) \<notin> set objectPrototypeMembers"
    by (simp add: linkAB_def objectPrototypeMembers_def)
  have "getDistance (linkAB\<lparr>depth := Finite (- 3000000000)\<rparr>) = Number 64748365200"
    unfolding getDistance_toInt32 [OF t]
    by (simp add: Math_min_4 linkAB_def tableDistance_def Math_trunc_def)
  moreover have "getDistance (linkAB\<lparr>linkType := ''constructor''\<rparr>) = StringResult"
    by (rule getDistance_inherited) (simp add: objectPrototypeMembers_def)
  ultimately show ?thesis by (simp add: linkAB_def tableDistance_def Math_trunc_def)
qed

text \<open>
  Claim C10, as the code has it. For a fixed link whose type does not name a member that
  the table inherits, \<open>getDistance\<close> yields numbers that are monotonically
  non-decreasing in the depth over the non-negative integer depths, the same at every
  depth from 4 on as at depth 4, and with the part that comes from the depth never above
  200.
\<close>

theorem getDistance_monotone_saturating:
  fixes m n :: nat
  assumes "linkType d \<notin> set objectPrototypeMembers"
  shows "\<exists>a b c. getDistance (d\<lparr>depth := Finite (real m)\<rparr>) = Number a
           \<and> getDistance (d\<lparr>depth := Finite (real n)\<rparr>) = Number b
           \<and> getDistance (d\<lparr>depth := Finite (real (4::nat))\<rparr>) = Number c
           \<and> (m \<le> n \<longrightarrow> a \<le> b)
           \<and> (4 \<le> n \<longrightarrow> b = c)
           \<and> b - tableDistance (linkType d) \<le> 200"
  unfolding getDistance_nat_depth [OF assms] by (auto simp: min_def)

theorem getDistance_monotone_saturating_witness:
  "linkType linkAB \<notin> set objectPrototypeMembers \<and> (2::nat) \<le> 7 \<and> (4::nat) \<le> 7
   \<and> (\<exists>a b c. getDistance (linkAB\<lparr>depth := Finite (real (2::nat))\<rparr>) = Number a
           \<and> getDistance (linkAB\<lparr>depth := Finite (real (7::nat))\<rparr>) = Number b
           \<and> getDistance (linkAB\<lparr>depth := Finite (real (4::nat))\<rparr>) = Number c
           \<and> a \<le> b \<and> b = c \<and> b - tableDistance (linkType linkAB) \<le> 200)"
proof -
  have t: "linkType linkAB \<notin> set objectPrototypeMembers"
    by (simp add: linkAB_def objectPrototypeMembers_def)
  from getDistance_monotone_saturating [OF t, of 2 7] t show ?thesis by simp
qed

text \<open>
  Claim C10 as stated fails for the link type \<^verbatim>\<open>constructor\<close>: at the depths 1 and 2
  the results are strings, not distances.
\<close>

theorem getDistance_inherited_counterexample:
  "getDistance (linkAB\<lparr>linkType := ''constructor'', depth := Finite (real (1::nat))\<rparr>) = StringResult
   \<and> getDistance (linkAB\<lparr>linkType := ''constructor'', depth := Finite (real (2::nat))\<rparr>) = StringResult"
  by (simp add: getDistance_inherited objectPrototypeMembers_def)

section \<open>Doubles and the clamp\<close>

lemma isDouble_of_nat:
  assumes "n < 2 ^ 53"
  shows "isDouble (real n)"
  unfolding isDouble_def
proof (intro exI [of _ "int n"] exI [of _ "0::nat"] conjI)
  show "\<bar>int n\<bar> < 2 ^ 53" using assms by (simp add: of_nat_less_numeral_power_cancel_iff)
qed simp

lemma isDouble_sub:
  assumes "isDouble v" and "real n < v" and "v < 2 ^ 53"
  shows "isDouble (v - real n)"
proof -
  from assms(1) obtain m :: int and k :: nat where m: "\<bar>m\<bar> < 2 ^ 53"
    and v: "(k \<le> 971 \<and> v = of_int m * 2 ^ k) \<or> (k \<le> 1074 \<and> v = of_int m / 2 ^ k)"
    unfolding isDouble_def by blast
  from v show ?thesis
  proof
    assume a: "k \<le> 971 \<and> v = of_int m * 2 ^ k"
    then have vi: "v = of_int (m * 2 ^ k)" by simp
    let ?m = "m * 2 ^ k - int n"
    have e: "v - real n = of_int ?m" using vi by simp
    have "(0::real) \<le> real n" by simp
    then have "(0::real) < of_int ?m" "(of_int ?m :: real) < 2 ^ 53"
      using assms(2,3) e by linarith+
    then have "0 < ?m" "?m < 2 ^ 53"
      by (simp_all only: of_int_0_less_iff of_int_less_numeral_power_cancel_iff)
    then have "\<bar>?m\<bar> < 2 ^ 53" by linarith
    with e show ?thesis
      unfolding isDouble_def by (intro exI [of _ ?m] exI [of _ "0::nat"]) simp
  next
    assume b: "k \<le> 1074 \<and> v = of_int m / 2 ^ k"
    let ?m = "m - int n * 2 ^ k"
    have e: "v - real n = of_int ?m / 2 ^ k" using b by (simp add: field_simps)
    have "0 < v - real n" using assms(2) by simp
    then have "0 < (of_int ?m :: real)" unfolding e by (simp add: zero_less_divide_iff)
    then have "0 < ?m" by (simp only: of_int_0_less_iff)
    moreover have "?m \<le> m" by simp
    ultimately have "\<bar>?m\<bar> < 2 ^ 53" using m by linarith
    then show ?thesis
      unfolding isDouble_def using e b by (intro exI [of _ ?m] exI [of _ k]) simp
  qed
qed

lemma sub_exact:
  assumes "roundsExactly E" and "isDouble (a - b)" and "a \<noteq> 0" and "b \<noteq> 0" and "a \<noteq> b"
  shows "sub E (Finite a) (Finite b) = Finite (a - b)"
  using assms by (simp add: sub_def add_def isZero_def isInf_def roundsExactly_def)

lemma clamp_number:
  assumes "isNumber t" and "40 \<le> cv" and "isDouble cv"
  shows "\<exists>mv. Math_max (Finite 40) (Math_min (Finite cv) t) = Finite mv
            \<and> 40 \<le> mv \<and> mv \<le> cv \<and> isDouble mv"
proof -
  have d40: "isDouble 40" using isDouble_of_nat [of 40] by simp
  show ?thesis
  proof (cases t)
    case (Finite tv)
    then show ?thesis using assms d40 by (auto simp: Math_max_def Math_min_def)
  qed (use assms d40 in \<open>auto simp: Math_max_def Math_min_def\<close>)
qed

lemma clamp_shift:
  assumes E: "roundsExactly E" and w: "isDouble w" "80 \<le> w" "w < 2 ^ 53" and t: "isNumber t"
  shows "\<exists>nx. sub E (Math_max (Finite 40) (Math_min (sub E (Finite w) (Finite 40)) t)) (Finite (32 / 2))
                = Finite nx \<and> 24 \<le> nx \<and> nx \<le> w - 56"
proof -
  have c: "isDouble (w - 40)" using isDouble_sub [of w 40] w by simp
  then have s: "sub E (Finite w) (Finite 40) = Finite (w - 40)"
    using E w by (intro sub_exact) auto
  from clamp_number [OF t, of "w - 40"] c w obtain mv where
    mv: "Math_max (Finite 40) (Math_min (Finite (w - 40)) t) = Finite mv"
    and b: "40 \<le> mv" "mv \<le> w - 40" and d: "isDouble mv"
    by auto
  have "isDouble (mv - 16)" using isDouble_sub [of mv 16] d b w by simp
  then have "sub E (Finite mv) (Finite 16) = Finite (mv - 16)"
    using E b by (intro sub_exact) auto
  then show ?thesis using b unfolding s mv by simp
qed

section \<open>Properties of the tick handler\<close>

lemma length_attr: "length (attr name f sel) = length sel"
  by (simp add: attr_def)

lemma length_style: "length (style name f sel) = length sel"
  by (simp add: style_def)

lemma nth_attr:
  "i < length sel \<Longrightarrow>
   attr name f sel ! i = (sel ! i)\<lparr>attrs := (attrs (sel ! i))(name \<mapsto> f (datum (sel ! i)))\<rparr>"
  by (simp add: attr_def)

lemma nth_style:
  "i < length sel \<Longrightarrow>
   style name f sel ! i = (sel ! i)\<lparr>styles := (styles (sel ! i))(name \<mapsto> f (datum (sel ! i)))\<rparr>"
  by (simp add: style_def)

lemma ticked_link:
  "link (ticked E tr w h doc) = attr ''d'' (\<lambda>d. computeLink E d tr (Finite 40) w h) (link doc)"
  by (simp add: ticked_def Let_def)

lemma ticked_node:
  "node (ticked E tr w h doc) = attr ''transform'' (computeTransform E tr (Finite 40) w h) (node doc)"
  by (simp add: ticked_def Let_def)

lemma ticked_linkLabel:
  "linkLabel (ticked E tr w h doc) =
     attr ''y'' (\<lambda>d. NumberAttr (applyY E tr (ypos E (if repeated d then Finite 30 else Finite 60) (source d) (target d))))
       (attr ''x'' (\<lambda>d. NumberAttr (applyX E tr (xpos E (if repeated d then Finite 30 else Finite 60) (source d) (target d))))
         (attr ''text-anchor'' (\<lambda>d. Str (if repeated d then ''start'' else ''end''))
           (linkLabel doc)))"
  by (simp add: ticked_def Let_def)

lemma ticked_everything: "everything (ticked E tr w h doc) = everything doc"
  by (simp add: ticked_def Let_def)

lemma ticked_length:
  "length (link (ticked E tr w h doc)) = length (link doc)"
  "length (linkLabel (ticked E tr w h doc)) = length (linkLabel doc)"
  "length (node (ticked E tr w h doc)) = length (node doc)"
  by (simp_all add: ticked_link ticked_linkLabel ticked_node length_attr)

lemma ticked_link_nth:
  assumes "i < length (link doc)"
  shows "attrs (link (ticked E tr w h doc) ! i) ''d'' =
           Some (computeLink E (datum (link doc ! i)) tr (Finite 40) w h)"
  using assms by (simp add: ticked_link nth_attr)

lemma ticked_node_nth:
  assumes "i < length (node doc)"
  shows "attrs (node (ticked E tr w h doc) ! i) ''transform'' =
           Some (computeTransform E tr (Finite 40) w h (datum (node doc ! i)))"
  using assms by (simp add: ticked_node nth_attr)

lemma ticked_linkLabel_nth:
  assumes "i < length (linkLabel doc)"
  shows "attrs (linkLabel (ticked E tr w h doc) ! i) ''x'' =
           Some (NumberAttr (applyX E tr (xpos E (if repeated (datum (linkLabel doc ! i)) then Finite 30 else Finite 60)
                   (source (datum (linkLabel doc ! i))) (target (datum (linkLabel doc ! i))))))"
    and "attrs (linkLabel (ticked E tr w h doc) ! i) ''y'' =
           Some (NumberAttr (applyY E tr (ypos E (if repeated (datum (linkLabel doc ! i)) then Finite 30 else Finite 60)
                   (source (datum (linkLabel doc ! i))) (target (datum (linkLabel doc ! i))))))"
    and "attrs (linkLabel (ticked E tr w h doc) ! i) ''text-anchor'' =
           Some (Str (if repeated (datum (linkLabel doc ! i)) then ''start'' else ''end''))"
  using assms by (simp_all add: ticked_linkLabel nth_attr length_attr)

lemma computeLink_explicit:
  "computeLink E d tr (Finite 40) w h =
     (let x1 = applyX E tr (Math_max (Finite 40) (Math_min (sub E w (Finite 40)) (x (source d))));
          y1 = applyY E tr (Math_max (Finite 40) (Math_min (sub E h (Finite 40)) (y (source d))));
          x2 = applyX E tr (Math_max (Finite 40) (Math_min (sub E w (Finite 40)) (x (target d))));
          y2 = applyY E tr (Math_max (Finite 40) (Math_min (sub E h (Finite 40)) (y (target d))))
      in if repeated d
         then PathArc x1 y1
                (Math_sqrt E (add E (mul E (sub E x2 x1) (sub E x2 x1)) (mul E (sub E y2 y1) (sub E y2 y1))))
                x2 y2
         else PathLine x1 y1 x2 y2)"
  by (simp add: computeLink_def Let_def)

lemma computeTransform_explicit:
  "computeTransform E tr (Finite 40) w h d =
     Translate (sub E (Math_max (Finite 40) (Math_min (sub E w (Finite 40)) (applyX E tr (x d)))) (Finite 16))
               (sub E (Math_max (Finite 40) (Math_min (sub E h (Finite 40)) (applyY E tr (y d)))) (Finite 16))"
  by (simp add: computeTransform_def Let_def)

lemma label_explicit:
  "xpos E offset s t =
     add E (mul E offset (Math_cos E (Math_atan2 E (sub E (y t) (y s)) (sub E (x t) (x s))))) (x s)"
  "ypos E offset s t =
     add E (mul E offset (Math_sin E (Math_atan2 E (sub E (y t) (y s)) (sub E (x t) (x s))))) (y s)"
  by (simp_all add: xpos_def ypos_def angle_def)

text \<open>
  Claim C3. The handler the simulation calls on every tick runs \<open>ticked\<close> with the
  component's current transform, and \<open>ticked\<close> writes every position anew from the
  coordinates of the data and the transform, in the engine's arithmetic: the path of each
  link runs between the transforms of the source and target coordinates clamped to
  \<open>[40, width - 40]\<close> and \<open>[40, height - 40]\<close> (\<^verbatim>\<open>Math.max(40, Math.min(width - 40, v))\<close>);
  each link label goes to the transform of the point at offset 30 (repeated link) or 60
  from the source in the direction of the link (the offset times the cosine and the sine
  of the angle \<^verbatim>\<open>Math.atan2\<close> gives for the difference of target and source, added to
  the source); each node is translated to the transform of its coordinate, clamped in the
  same way, less 16 in both directions.
\<close>

theorem ticked_screen_positions:
  "onTick E w h (self, doc) = (self, ticked E (this_transform self) w h doc)
   \<and> length (link (ticked E tr w h doc)) = length (link doc)
   \<and> length (linkLabel (ticked E tr w h doc)) = length (linkLabel doc)
   \<and> length (node (ticked E tr w h doc)) = length (node doc)
   \<and> (\<forall>i<length (link doc).
        let d = datum (link doc ! i);
            x1 = applyX E tr (Math_max (Finite 40) (Math_min (sub E w (Finite 40)) (x (source d))));
            y1 = applyY E tr (Math_max (Finite 40) (Math_min (sub E h (Finite 40)) (y (source d))));
            x2 = applyX E tr (Math_max (Finite 40) (Math_min (sub E w (Finite 40)) (x (target d))));
            y2 = applyY E tr (Math_max (Finite 40) (Math_min (sub E h (Finite 40)) (y (target d))))
        in attrs (link (ticked E tr w h doc) ! i) ''d'' =
             Some (if repeated d
                   then PathArc x1 y1
                          (Math_sqrt E (add E (mul E (sub E x2 x1) (sub E x2 x1))
                                              (mul E (sub E y2 y1) (sub E y2 y1))))
                          x2 y2
                   else PathLine x1 y1 x2 y2))
   \<and> (\<forall>i<length (linkLabel doc).
        let d = datum (linkLabel doc ! i); s = source d; t = target d;
            offset = (if repeated d then Finite 30 else Finite 60);
            direction = Math_atan2 E (sub E (y t) (y s)) (sub E (x t) (x s))
        in attrs (linkLabel (ticked E tr w h doc) ! i) ''x'' =
             Some (NumberAttr (applyX E tr (add E (mul E offset (Math_cos E direction)) (x s))))
         \<and> attrs (linkLabel (ticked E tr w h doc) ! i) ''y'' =
             Some (NumberAttr (applyY E tr (add E (mul E offset (Math_sin E direction)) (y s)))))
   \<and> (\<forall>i<length (node doc).
        let d = datum (node doc ! i)
        in attrs (node (ticked E tr w h doc) ! i) ''transform'' =
             Some (Translate
                     (sub E (Math_max (Finite 40) (Math_min (sub E w (Finite 40)) (applyX E tr (x d)))) (Finite 16))
                     (sub E (Math_max (Finite 40) (Math_min (sub E h (Finite 40)) (applyY E tr (y d)))) (Finite 16))))"
proof -
  have a: "onTick E w h (self, doc) = (self, ticked E (this_transform self) w h doc)"
    by (simp add: onTick_def)
  have l: "\<forall>i<length (link doc).
        let d = datum (link doc ! i);
            x1 = applyX E tr (Math_max (Finite 40) (Math_min (sub E w (Finite 40)) (x (source d))));
            y1 = applyY E tr (Math_max (Finite 40) (Math_min (sub E h (Finite 40)) (y (source d))));
            x2 = applyX E tr (Math_max (Finite 40) (Math_min (sub E w (Finite 40)) (x (target d))));
            y2 = applyY E tr (Math_max (Finite 40) (Math_min (sub E h (Finite 40)) (y (target d))))
        in attrs (link (ticked E tr w h doc) ! i) ''d'' =
             Some (if repeated d
                   then PathArc x1 y1
                          (Math_sqrt E (add E (mul E (sub E x2 x1) (sub E x2 x1))
                                              (mul E (sub E y2 y1) (sub E y2 y1))))
                          x2 y2
                   else PathLine x1 y1 x2 y2)"
    by (simp add: ticked_link_nth computeLink_explicit Let_def)
  have ll: "\<forall>i<length (linkLabel doc).
        let d = datum (linkLabel doc ! i); s = source d; t = target d;
            offset = (if repeated d then Finite 30 else Finite 60);
            direction = Math_atan2 E (sub E (y t) (y s)) (sub E (x t) (x s))
        in attrs (linkLabel (ticked E tr w h doc) ! i) ''x'' =
             Some (NumberAttr (applyX E tr (add E (mul E offset (Math_cos E direction)) (x s))))
         \<and> attrs (linkLabel (ticked E tr w h doc) ! i) ''y'' =
             Some (NumberAttr (applyY E tr (add E (mul E offset (Math_sin E direction)) (y s))))"
    by (simp add: ticked_linkLabel_nth label_explicit Let_def)
  have n: "\<forall>i<length (node doc).
        let d = datum (node doc ! i)
        in attrs (node (ticked E tr w h doc) ! i) ''transform'' =
             Some (Translate
                     (sub E (Math_max (Finite 40) (Math_min (sub E w (Finite 40)) (applyX E tr (x d)))) (Finite 16))
                     (sub E (Math_max (Finite 40) (Math_min (sub E h (Finite 40)) (applyY E tr (y d)))) (Finite 16)))"
    by (simp add: ticked_node_nth computeTransform_explicit Let_def)
  from a l ll n show ?thesis by (intro conjI ticked_length)
qed

lemmas exact_arith = add_def mul_def sub_def isZero_def isInf_def exactEngine_def
  Math_max_def Math_min_def applyX_def applyY_def

theorem ticked_screen_positions_witness:
  "(0::nat) < length (link sampleDoc) \<and> (0::nat) < length (linkLabel sampleDoc)
   \<and> (2::nat) < length (node sampleDoc)
   \<and> attrs (link (ticked exactEngine zoomed (Finite 800) (Finite 600) sampleDoc) ! 0) ''d''
       = Some (PathLine (Finite 210) (Finite 120) (Finite 810) (Finite 920))
   \<and> attrs (linkLabel (ticked exactEngine zoomed (Finite 800) (Finite 600) sampleDoc) ! 0) ''x''
       = Some (NumberAttr (applyX exactEngine zoomed (xpos exactEngine (Finite 60) nodeA nodeB)))
   \<and> attrs (node (ticked exactEngine zoomed (Finite 800) (Finite 600) sampleDoc) ! 2) ''transform''
       = Some (Translate (Finite 744) (Finite 104))"
proof -
  note T = ticked_screen_positions [of exactEngine "Finite 800" "Finite 600" component0 sampleDoc zoomed]
  note L = T [THEN conjunct2, THEN conjunct2, THEN conjunct2, THEN conjunct2, THEN conjunct1,
               rule_format, unfolded Let_def]
  note LL = T [THEN conjunct2, THEN conjunct2, THEN conjunct2, THEN conjunct2, THEN conjunct2,
                THEN conjunct1, rule_format, unfolded Let_def, THEN conjunct1]
  note N = T [THEN conjunct2, THEN conjunct2, THEN conjunct2, THEN conjunct2, THEN conjunct2,
               THEN conjunct2, rule_format, unfolded Let_def]
  have l: "(0::nat) < length (link sampleDoc)" and ll: "(0::nat) < length (linkLabel sampleDoc)"
    and n: "(2::nat) < length (node sampleDoc)"
    by (simp_all add: sampleDoc_def)
  have d0: "datum (link sampleDoc ! 0) = linkAB" "datum (linkLabel sampleDoc ! 0) = linkAB"
    "datum (node sampleDoc ! 2) = nodeC"
    by (simp_all add: sampleDoc_def blank_def)
  have "attrs (link (ticked exactEngine zoomed (Finite 800) (Finite 600) sampleDoc) ! 0) ''d''
       = Some (PathLine (Finite 210) (Finite 120) (Finite 810) (Finite 920))"
    unfolding L [OF l] d0 by (simp add: linkAB_def nodeA_def nodeB_def zoomed_def exact_arith)
  moreover have "attrs (linkLabel (ticked exactEngine zoomed (Finite 800) (Finite 600) sampleDoc) ! 0) ''x''
       = Some (NumberAttr (applyX exactEngine zoomed (xpos exactEngine (Finite 60) nodeA nodeB)))"
    unfolding LL [OF ll] d0 by (simp add: linkAB_def label_explicit)
  moreover have "attrs (node (ticked exactEngine zoomed (Finite 800) (Finite 600) sampleDoc) ! 2) ''transform''
       = Some (Translate (Finite 744) (Finite 104))"
    unfolding N [OF n] d0 by (simp add: nodeC_def zoomed_def exact_arith)
  ultimately show ?thesis using l ll n by simp
qed

lemma isDouble_40_2_52: "isDouble (40 * 2 ^ 52)"
  unfolding isDouble_def by (intro exI [of _ "40::int"] exI [of _ "52::nat"]) simp

lemma link_endpoint_zoomed:
  assumes E: "roundsExactly E" and w: "isDouble w" "80 \<le> w" "w < 2 ^ 53"
  shows "applyX E \<lparr>zoom_k = Finite (2 ^ 52), zoom_x = Finite 0, zoom_y = Finite 0\<rparr>
           (Math_max (Finite 40) (Math_min (sub E (Finite w) (Finite 40)) (Finite 40)))
         = Finite (40 * 2 ^ 52)"
proof -
  have "isDouble (w - 40)" using isDouble_sub [of w 40] w by simp
  then have s: "sub E (Finite w) (Finite 40) = Finite (w - 40)"
    using E w by (intro sub_exact) auto
  have c: "Math_max (Finite 40) (Math_min (Finite (w - 40)) (Finite 40)) = Finite 40"
    using w by (simp add: Math_max_def Math_min_def)
  have "fl E (40 * 2 ^ 52) = Finite (40 * 2 ^ 52)"
    using E isDouble_40_2_52 by (simp add: roundsExactly_def)
  then show ?thesis
    unfolding s c by (simp add: applyX_def mul_def add_def isZero_def isInf_def)
qed

text \<open>
  Claim C8, as the code has it. In a viewport of at least 80 by 80 (and below \<open>2^53\<close>),
  for every transform and every node whose transformed coordinates are numbers, not
  \<^verbatim>\<open>NaN\<close>, the translation the tick handler gives the node lies in
  \<open>[24, width - 56]\<close> by \<open>[24, height - 56]\<close>, the clamp being applied after the
  transform; a link endpoint is clamped before the transform and can leave the viewport
  (a large enough zoom factor puts it right of the viewport). The engine is any that
  returns the exact result of an operation when that is a double, as IEEE arithmetic does.
\<close>

theorem node_translation_in_viewport:
  assumes "roundsExactly E"
    and "isDouble w" and "80 \<le> w" and "w < 2 ^ 53"
    and "isDouble h" and "80 \<le> h" and "h < 2 ^ 53"
    and "i < length (node doc)"
    and "isNumber (applyX E tr (x (datum (node doc ! i))))"
    and "isNumber (applyY E tr (y (datum (node doc ! i))))"
  shows "(\<exists>nx ny. attrs (node (ticked E tr (Finite w) (Finite h) doc) ! i) ''transform''
                     = Some (Translate (Finite nx) (Finite ny))
            \<and> 24 \<le> nx \<and> nx \<le> w - 56 \<and> 24 \<le> ny \<and> ny \<le> h - 56)
       \<and> (\<exists>tr' d x1 y1 x2 y2. computeLink E d tr' (Finite 40) (Finite w) (Finite h)
                                  = PathLine (Finite x1) y1 x2 y2 \<and> w < x1)"
proof
  from clamp_shift [OF assms(1-4) assms(9)] obtain nx where
    nx: "sub E (Math_max (Finite 40) (Math_min (sub E (Finite w) (Finite 40))
              (applyX E tr (x (datum (node doc ! i)))))) (Finite (32 / 2)) = Finite nx"
    and bx: "24 \<le> nx" "nx \<le> w - 56" by blast
  from clamp_shift [OF assms(1) assms(5-7) assms(10)] obtain ny where
    ny: "sub E (Math_max (Finite 40) (Math_min (sub E (Finite h) (Finite 40))
              (applyY E tr (y (datum (node doc ! i)))))) (Finite (32 / 2)) = Finite ny"
    and by': "24 \<le> ny" "ny \<le> h - 56" by blast
  have "attrs (node (ticked E tr (Finite w) (Finite h) doc) ! i) ''transform''
          = Some (Translate (Finite nx) (Finite ny))"
    using nx ny by (simp add: ticked_node_nth [OF assms(8)] computeTransform_explicit)
  with bx by' show "\<exists>nx ny. attrs (node (ticked E tr (Finite w) (Finite h) doc) ! i) ''transform''
                     = Some (Translate (Finite nx) (Finite ny))
            \<and> 24 \<le> nx \<and> nx \<le> w - 56 \<and> 24 \<le> ny \<and> ny \<le> h - 56"
    by blast
next
  let ?tr = "\<lparr>zoom_k = Finite (2 ^ 52), zoom_x = Finite 0, zoom_y = Finite 0\<rparr>"
  let ?d = "linkAB\<lparr>source := nodeA\<lparr>x := Finite 40\<rparr>\<rparr>"
  have "\<exists>y1 x2 y2. computeLink E ?d ?tr (Finite 40) (Finite w) (Finite h)
          = PathLine (Finite (40 * 2 ^ 52)) y1 x2 y2"
    using link_endpoint_zoomed [OF assms(1-4)]
    by (simp add: computeLink_explicit Let_def linkAB_def)
  moreover have "w < 40 * 2 ^ 52" using assms(4) by simp
  ultimately show "\<exists>tr' d x1 y1 x2 y2. computeLink E d tr' (Finite 40) (Finite w) (Finite h)
                                  = PathLine (Finite x1) y1 x2 y2 \<and> w < x1"
    by blast
qed

theorem node_translation_in_viewport_witness:
  "roundsExactly exactEngine \<and> isDouble 800 \<and> (80::real) \<le> 800 \<and> (800::real) < 2 ^ 53
   \<and> isDouble 600 \<and> (80::real) \<le> 600 \<and> (600::real) < 2 ^ 53
   \<and> (2::nat) < length (node sampleDoc)
   \<and> isNumber (applyX exactEngine zoomed (x (datum (node sampleDoc ! 2))))
   \<and> isNumber (applyY exactEngine zoomed (y (datum (node sampleDoc ! 2))))
   \<and> (\<exists>nx ny. attrs (node (ticked exactEngine zoomed (Finite 800) (Finite 600) sampleDoc) ! 2) ''transform''
                  = Some (Translate (Finite nx) (Finite ny))
            \<and> 24 \<le> nx \<and> nx \<le> 800 - 56 \<and> 24 \<le> ny \<and> ny \<le> 600 - 56)"
proof -
  have e: "roundsExactly exactEngine" by (simp add: roundsExactly_def exactEngine_def)
  have w: "isDouble 800" and h: "isDouble 600"
    using isDouble_of_nat [of 800] isDouble_of_nat [of 600] by simp_all
  have n: "(2::nat) < length (node sampleDoc)" by (simp add: sampleDoc_def)
  have d: "datum (node sampleDoc ! 2) = nodeC" by (simp add: sampleDoc_def blank_def)
  have tx: "isNumber (applyX exactEngine zoomed (x (datum (node sampleDoc ! 2))))"
    using isDouble_of_nat [of 1410] by (simp add: d nodeC_def zoomed_def exact_arith)
  have ty: "isNumber (applyY exactEngine zoomed (y (datum (node sampleDoc ! 2))))"
    using isDouble_of_nat [of 120] by (simp add: d nodeC_def zoomed_def exact_arith)
  from node_translation_in_viewport [OF e w _ _ h _ _ n tx ty, THEN conjunct1] e w h n tx ty
  show ?thesis by simp
qed

text \<open>
  Claim C8 as stated fails for a node that has no position: \<^verbatim>\<open>Math.min\<close> and
  \<^verbatim>\<open>Math.max\<close> hand \<^verbatim>\<open>NaN\<close> on, and the translation is \<open>(NaN, NaN)\<close>. It
  fails in a viewport of width \<open>2^60\<close> too, where \<open>width - 40\<close> and the shift by 16
  are rounded: a node at \<open>2^60\<close> is translated to \<open>2^60\<close>, above \<open>width - 56\<close>.
\<close>

theorem node_translation_nan_counterexample:
  "attrs (node (ticked exactEngine zoomIdentity (Finite 800) (Finite 600) unplacedDoc) ! 0) ''transform''
     = Some (Translate NaN NaN)
   \<and> attrs (node (ticked roundingEngine zoomIdentity (Finite (2 ^ 60)) (Finite 600) farDoc) ! 0) ''transform''
     = Some (Translate (Finite (2 ^ 60)) (Finite 34))
   \<and> \<not> ((2 ^ 60 :: real) \<le> 2 ^ 60 - 56)"
proof -
  have "attrs (node (ticked exactEngine zoomIdentity (Finite 800) (Finite 600) unplacedDoc) ! 0) ''transform''
     = Some (Translate NaN NaN)"
    by (simp add: ticked_node nth_attr computeTransform_explicit unplacedDoc_def blank_def nodeD_def
          zoomIdentity_def exact_arith)
  moreover have "attrs (node (ticked roundingEngine zoomIdentity (Finite (2 ^ 60)) (Finite 600) farDoc) ! 0) ''transform''
     = Some (Translate (Finite (2 ^ 60)) (Finite 34))"
    by (simp add: ticked_node nth_attr computeTransform_explicit farDoc_def blank_def nodeE_def
          zoomIdentity_def roundingEngine_def exact_arith)
  ultimately show ?thesis by simp
qed

section \<open>Properties of the highlighting\<close>

lemma fold_insert_image: "fold (\<lambda>a S. insert (f a) S) xs A = f ` set xs \<union> A"
  by (induction xs arbitrary: A) auto

lemma linkedByIndex_image:
  "linkedByIndex g ls =
     (\<lambda>n. ieeeAddr n @ '','' @ ieeeAddr n) ` set (nodes g)
     \<union> (\<lambda>l. sourceIeeeAddr l @ '','' @ targetIeeeAddr l) ` set ls"
  by (auto simp: linkedByIndex_def fold_insert_image)

lemma processHighlights_Some:
  "node (processHighlights g ls (Some sel) doc) =
     style ''opacity''
       (\<lambda>ob. Num (if neighboring (linkedByIndex g ls) sel ob \<or> neighboring (linkedByIndex g ls) ob sel
                    then 1 else 0.15))
       (node doc)"
  "link (processHighlights g ls (Some sel) doc) =
     style ''stroke-opacity'' (computeOpacity (Some sel)) (link doc)"
  "linkLabel (processHighlights g ls (Some sel) doc) =
     style ''opacity'' (computeOpacity (Some sel)) (linkLabel doc)"
  "everything (processHighlights g ls (Some sel) doc) = everything doc"
  by (simp_all add: processHighlights_def Let_def)

lemma processHighlights_None:
  "node (processHighlights g ls None doc) = style ''opacity'' (\<lambda>ob. Num 1) (node doc)"
  "link (processHighlights g ls None doc) = style ''stroke-opacity'' (\<lambda>l. Num 1) (link doc)"
  "linkLabel (processHighlights g ls None doc) = style ''opacity'' (\<lambda>l. Num 1) (linkLabel doc)"
  "everything (processHighlights g ls None doc) = everything doc"
  by (simp_all add: processHighlights_def Let_def)

lemma computeOpacity_Some:
  "computeOpacity (Some sel) l =
     Num (if oid (source l) = oid sel \<or> oid (target l) = oid sel then 1 else 0.15)"
  by (simp add: computeOpacity_def strictEq_def)

lemma styles_nth_style:
  "i < length sel \<Longrightarrow> styles (style name f sel ! i) name = Some (f (datum (sel ! i)))"
  by (simp add: nth_style)

text \<open>
  Claim C2. With a node selected, every node gets opacity 1 if the pair of it and the
  selected node, in either order, is in the link index, and 0.15 otherwise, the index
  being the self-pairs of the nodes of the graph and the source-target pairs of the links
  handed in; every link (\<open>stroke-opacity\<close>) and every link label (\<open>opacity\<close>) gets 1
  if its source or its target is the selected node, and 0.15 otherwise. The links
  \<open>updateNodes\<close> hands in are the links whose relationship is currently visible.
\<close>

theorem processHighlights_selected:
  "let doc' = processHighlights g ls (Some sel) doc;
       index = (\<lambda>n. ieeeAddr n @ '','' @ ieeeAddr n) ` set (nodes g)
               \<union> (\<lambda>l. sourceIeeeAddr l @ '','' @ targetIeeeAddr l) ` set ls
   in length (node doc') = length (node doc)
    \<and> length (link doc') = length (link doc)
    \<and> length (linkLabel doc') = length (linkLabel doc)
    \<and> (\<forall>i<length (node doc).
          styles (node doc' ! i) ''opacity'' =
            Some (Num (if ieeeAddr sel @ '','' @ ieeeAddr (datum (node doc ! i)) \<in> index
                          \<or> ieeeAddr (datum (node doc ! i)) @ '','' @ ieeeAddr sel \<in> index
                       then 1 else 0.15)))
    \<and> (\<forall>i<length (link doc).
          styles (link doc' ! i) ''stroke-opacity'' =
            Some (Num (if oid (source (datum (link doc ! i))) = oid sel
                          \<or> oid (target (datum (link doc ! i))) = oid sel
                       then 1 else 0.15)))
    \<and> (\<forall>i<length (linkLabel doc).
          styles (linkLabel doc' ! i) ''opacity'' =
            Some (Num (if oid (source (datum (linkLabel doc ! i))) = oid sel
                          \<or> oid (target (datum (linkLabel doc ! i))) = oid sel
                       then 1 else 0.15)))
    \<and> updateNodes g visibleLinks (Some sel) doc =
        processHighlights g (filter (\<lambda>l. relationship l \<in> set visibleLinks) (links g)) (Some sel) doc"
  unfolding Let_def processHighlights_Some linkedByIndex_image [symmetric]
  by (simp add: length_style styles_nth_style computeOpacity_Some neighboring_def
        updateNodes_def)

theorem processHighlights_selected_witness:
  "(2::nat) < length (node sampleDoc) \<and> (1::nat) < length (link sampleDoc)
   \<and> (1::nat) < length (linkLabel sampleDoc)
   \<and> styles (node (processHighlights sampleGraph [linkAB] (Some nodeA) sampleDoc) ! 1) ''opacity'' = Some (Num 1)
   \<and> styles (node (processHighlights sampleGraph [linkAB] (Some nodeA) sampleDoc) ! 2) ''opacity'' = Some (Num 0.15)
   \<and> styles (link (processHighlights sampleGraph [linkAB] (Some nodeA) sampleDoc) ! 0) ''stroke-opacity'' = Some (Num 1)
   \<and> styles (link (processHighlights sampleGraph [linkAB] (Some nodeA) sampleDoc) ! 1) ''stroke-opacity'' = Some (Num 0.15)
   \<and> styles (linkLabel (processHighlights sampleGraph [linkAB] (Some nodeA) sampleDoc) ! 1) ''opacity'' = Some (Num 0.15)"
proof -
  note T = processHighlights_selected [of sampleGraph "[linkAB]" nodeA sampleDoc "[1]", unfolded Let_def]
  note N = T [THEN conjunct2, THEN conjunct2, THEN conjunct2, THEN conjunct1, rule_format]
  note L = T [THEN conjunct2, THEN conjunct2, THEN conjunct2, THEN conjunct2, THEN conjunct1, rule_format]
  note LL = T [THEN conjunct2, THEN conjunct2, THEN conjunct2, THEN conjunct2, THEN conjunct2,
                THEN conjunct1, rule_format]
  have n: "(1::nat) < length (node sampleDoc)" "(2::nat) < length (node sampleDoc)"
    and l: "(0::nat) < length (link sampleDoc)" "(1::nat) < length (link sampleDoc)"
    and ll: "(1::nat) < length (linkLabel sampleDoc)"
    by (simp_all add: sampleDoc_def)
  have d: "datum (node sampleDoc ! 1) = nodeB" "datum (node sampleDoc ! 2) = nodeC"
    "datum (link sampleDoc ! 0) = linkAB" "datum (link sampleDoc ! 1) = linkBC"
    "datum (linkLabel sampleDoc ! 1) = linkBC"
    by (simp_all add: sampleDoc_def blank_def)
  have "styles (node (processHighlights sampleGraph [linkAB] (Some nodeA) sampleDoc) ! 1) ''opacity'' = Some (Num 1)"
    unfolding N [OF n(1)] d by (simp add: sampleGraph_def linkAB_def nodeA_def nodeB_def nodeC_def)
  moreover have "styles (node (processHighlights sampleGraph [linkAB] (Some nodeA) sampleDoc) ! 2) ''opacity'' = Some (Num 0.15)"
    unfolding N [OF n(2)] d by (simp add: sampleGraph_def linkAB_def nodeA_def nodeB_def nodeC_def)
  moreover have "styles (link (processHighlights sampleGraph [linkAB] (Some nodeA) sampleDoc) ! 0) ''stroke-opacity'' = Some (Num 1)"
    unfolding L [OF l(1)] d by (simp add: linkAB_def nodeA_def nodeB_def)
  moreover have "styles (link (processHighlights sampleGraph [linkAB] (Some nodeA) sampleDoc) ! 1) ''stroke-opacity'' = Some (Num 0.15)"
    unfolding L [OF l(2)] d by (simp add: linkBC_def nodeA_def nodeB_def nodeC_def)
  moreover have "styles (linkLabel (processHighlights sampleGraph [linkAB] (Some nodeA) sampleDoc) ! 1) ''opacity'' = Some (Num 0.15)"
    unfolding LL [OF ll] d by (simp add: linkBC_def nodeA_def nodeB_def nodeC_def)
  ultimately show ?thesis using n l ll by simp
qed

text \<open>
  Claim C5. With no node selected, every node's opacity, every link's stroke-opacity and
  every link label's opacity is set to 1, whatever the graph and the links are.
\<close>

theorem processHighlights_unselected:
  "let doc' = processHighlights g ls None doc
   in length (node doc') = length (node doc)
    \<and> length (link doc') = length (link doc)
    \<and> length (linkLabel doc') = length (linkLabel doc)
    \<and> (\<forall>i<length (node doc). styles (node doc' ! i) ''opacity'' = Some (Num 1))
    \<and> (\<forall>i<length (link doc). styles (link doc' ! i) ''stroke-opacity'' = Some (Num 1))
    \<and> (\<forall>i<length (linkLabel doc). styles (linkLabel doc' ! i) ''opacity'' = Some (Num 1))
    \<and> processHighlights g' ls' None doc = doc'"
  unfolding Let_def processHighlights_None
  by (simp add: length_style styles_nth_style processHighlights_def)

theorem processHighlights_unselected_witness:
  "(2::nat) < length (node sampleDoc) \<and> (1::nat) < length (link sampleDoc)
   \<and> (0::nat) < length (linkLabel sampleDoc)
   \<and> styles (node (processHighlights sampleGraph [linkAB] None sampleDoc) ! 2) ''opacity'' = Some (Num 1)
   \<and> styles (link (processHighlights sampleGraph [linkAB] None sampleDoc) ! 1) ''stroke-opacity'' = Some (Num 1)
   \<and> styles (linkLabel (processHighlights sampleGraph [linkAB] None sampleDoc) ! 0) ''opacity'' = Some (Num 1)"
proof -
  note T = processHighlights_unselected [of sampleGraph "[linkAB]" sampleDoc sampleGraph "[]", unfolded Let_def]
  have n: "(2::nat) < length (node sampleDoc)" and l: "(1::nat) < length (link sampleDoc)"
    and ll: "(0::nat) < length (linkLabel sampleDoc)"
    by (simp_all add: sampleDoc_def)
  from T n l ll show ?thesis by simp
qed

text \<open>
  Claim C9, as the code has it. The link index holds the pair of every node of the graph
  with itself, so with a node selected whose address is that of a node of the graph, the
  element of that node (any element whose datum has the selected node's address) gets
  opacity 1.
\<close>

theorem selected_node_never_dimmed:
  "(\<forall>n\<in>set (nodes g). ieeeAddr n @ '','' @ ieeeAddr n \<in> linkedByIndex g ls)
   \<and> (ieeeAddr sel \<in> ieeeAddr ` set (nodes g) \<longrightarrow> i < length (node doc) \<longrightarrow>
        ieeeAddr (datum (node doc ! i)) = ieeeAddr sel \<longrightarrow>
        styles (node (processHighlights g ls (Some sel) doc) ! i) ''opacity'' = Some (Num 1))"
proof (intro conjI ballI impI)
  fix n assume "n \<in> set (nodes g)"
  then show "ieeeAddr n @ '','' @ ieeeAddr n \<in> linkedByIndex g ls"
    by (simp add: linkedByIndex_image)
next
  assume sel: "ieeeAddr sel \<in> ieeeAddr ` set (nodes g)" and i: "i < length (node doc)"
    and same: "ieeeAddr (datum (node doc ! i)) = ieeeAddr sel"
  from sel obtain n where n: "n \<in> set (nodes g)" and e: "ieeeAddr n = ieeeAddr sel" by auto
  from n have "ieeeAddr n @ '','' @ ieeeAddr n \<in> linkedByIndex g ls"
    by (simp add: linkedByIndex_image)
  then have "ieeeAddr sel @ '','' @ ieeeAddr sel \<in> linkedByIndex g ls"
    unfolding e .
  then have "neighboring (linkedByIndex g ls) sel (datum (node doc ! i))"
    using same by (simp add: neighboring_def)
  then show "styles (node (processHighlights g ls (Some sel) doc) ! i) ''opacity'' = Some (Num 1)"
    using i by (simp add: processHighlights_Some styles_nth_style)
qed

theorem selected_node_never_dimmed_witness:
  "nodeC \<in> set (nodes sampleGraph) \<and> ieeeAddr nodeC \<in> ieeeAddr ` set (nodes sampleGraph)
   \<and> (2::nat) < length (node sampleDoc)
   \<and> ieeeAddr (datum (node sampleDoc ! 2)) = ieeeAddr nodeC
   \<and> ieeeAddr nodeC @ '','' @ ieeeAddr nodeC \<in> linkedByIndex sampleGraph []
   \<and> styles (node (processHighlights sampleGraph [] (Some nodeC) sampleDoc) ! 2) ''opacity'' = Some (Num 1)"
proof -
  note T = selected_node_never_dimmed [of sampleGraph "[]" nodeC 2 sampleDoc]
  have a: "nodeC \<in> set (nodes sampleGraph)" by (simp add: sampleGraph_def)
  then have b: "ieeeAddr nodeC \<in> ieeeAddr ` set (nodes sampleGraph)" by (rule imageI)
  have c: "(2::nat) < length (node sampleDoc)" by (simp add: sampleDoc_def)
  have d: "ieeeAddr (datum (node sampleDoc ! 2)) = ieeeAddr nodeC" by (simp add: sampleDoc_def blank_def)
  from T a b c d show ?thesis by blast
qed



text \<open>
  Claim C9 as stated fails for a selected node that is not in the graph handed in: its own
  element is dimmed.
\<close>

theorem selected_node_dimmed_counterexample:
  "datum (node sampleDoc ! 2) = nodeC
   \<and> styles (node (processHighlights smallGraph [linkAB] (Some nodeC) sampleDoc) ! 2) ''opacity''
       = Some (Num 0.15)"
  by (simp add: processHighlights_Some nth_style neighboring_def linkedByIndex_image
        sampleDoc_def blank_def smallGraph_def linkAB_def nodeA_def nodeB_def nodeC_def)

section \<open>What the handlers change\<close>

lemma attr_frame:
  "map datum (attr name f sel) = map datum sel"
  "map styles (attr name f sel) = map styles sel"
  "name \<in> K \<Longrightarrow> map (\<lambda>e. attrs e |` (- K)) (attr name f sel) = map (\<lambda>e. attrs e |` (- K)) sel"
  by (simp_all add: attr_def)

lemma style_frame:
  "map datum (style name f sel) = map datum sel"
  "map attrs (style name f sel) = map attrs sel"
  "name \<in> K \<Longrightarrow> map (\<lambda>e. styles e |` (- K)) (style name f sel) = map (\<lambda>e. styles e |` (- K)) sel"
  by (simp_all add: style_def)

lemma processHighlights_node:
  "\<exists>f. node (processHighlights g ls sel doc) = style ''opacity'' f (node doc)"
  by (cases sel) (auto simp: processHighlights_Some processHighlights_None)

lemma processHighlights_link:
  "\<exists>f. link (processHighlights g ls sel doc) = style ''stroke-opacity'' f (link doc)"
  by (cases sel) (auto simp: processHighlights_Some processHighlights_None)

lemma processHighlights_linkLabel:
  "\<exists>f. linkLabel (processHighlights g ls sel doc) = style ''opacity'' f (linkLabel doc)"
  by (cases sel) (auto simp: processHighlights_Some processHighlights_None)

lemma processHighlights_everything:
  "everything (processHighlights g ls sel doc) = everything doc"
  by (cases sel) (simp_all add: processHighlights_Some processHighlights_None)


lemma computeTransform_NaN:
  assumes "x d = NaN" and "y d = NaN"
  shows "computeTransform E tr (Finite 40) w h d = Translate NaN NaN"
  using assms
  by (simp add: computeTransform_explicit applyX_def applyY_def mul_def add_def sub_def
        Math_max_def Math_min_def)

lemma getDistance_cong:
  "linkType d = linkType d' \<Longrightarrow> depth d = depth d' \<Longrightarrow> getDistance d = getDistance d'"
  by (simp add: getDistance_def)

lemma ticked_frame:
  "everything (ticked E tr w h doc) = everything doc"
  "map datum (node (ticked E tr w h doc)) = map datum (node doc)"
  "map styles (node (ticked E tr w h doc)) = map styles (node doc)"
  "map (\<lambda>e. attrs e |` (- {''transform''})) (node (ticked E tr w h doc))
     = map (\<lambda>e. attrs e |` (- {''transform''})) (node doc)"
  "map datum (link (ticked E tr w h doc)) = map datum (link doc)"
  "map styles (link (ticked E tr w h doc)) = map styles (link doc)"
  "map (\<lambda>e. attrs e |` (- {''d''})) (link (ticked E tr w h doc))
     = map (\<lambda>e. attrs e |` (- {''d''})) (link doc)"
  "map datum (linkLabel (ticked E tr w h doc)) = map datum (linkLabel doc)"
  "map styles (linkLabel (ticked E tr w h doc)) = map styles (linkLabel doc)"
  "map (\<lambda>e. attrs e |` (- {''text-anchor'', ''x'', ''y''})) (linkLabel (ticked E tr w h doc))
     = map (\<lambda>e. attrs e |` (- {''text-anchor'', ''x'', ''y''})) (linkLabel doc)"
  unfolding ticked_everything ticked_node ticked_link ticked_linkLabel
  by (simp_all add: attr_frame)

lemma processHighlights_frame:
  "everything (processHighlights g ls sel doc) = everything doc"
  "map datum (node (processHighlights g ls sel doc)) = map datum (node doc)"
  "map attrs (node (processHighlights g ls sel doc)) = map attrs (node doc)"
  "map (\<lambda>e. styles e |` (- {''opacity''})) (node (processHighlights g ls sel doc))
     = map (\<lambda>e. styles e |` (- {''opacity''})) (node doc)"
  "map datum (link (processHighlights g ls sel doc)) = map datum (link doc)"
  "map attrs (link (processHighlights g ls sel doc)) = map attrs (link doc)"
  "map (\<lambda>e. styles e |` (- {''stroke-opacity''})) (link (processHighlights g ls sel doc))
     = map (\<lambda>e. styles e |` (- {''stroke-opacity''})) (link doc)"
  "map datum (linkLabel (processHighlights g ls sel doc)) = map datum (linkLabel doc)"
  "map attrs (linkLabel (processHighlights g ls sel doc)) = map attrs (linkLabel doc)"
  "map (\<lambda>e. styles e |` (- {''opacity''})) (linkLabel (processHighlights g ls sel doc))
     = map (\<lambda>e. styles e |` (- {''opacity''})) (linkLabel doc)"
  using processHighlights_node [of g ls sel doc] processHighlights_link [of g ls sel doc]
    processHighlights_linkLabel [of g ls sel doc] processHighlights_everything [of g ls sel doc]
  by (auto simp: style_frame)

text \<open>What the handlers write, element by element.\<close>

lemma ticked_writes:
  "\<forall>i<length (node doc).
      attrs (node (ticked E tr w h doc) ! i) ''transform''
        = Some (computeTransform E tr (Finite 40) w h (datum (node doc ! i)))"
  "\<forall>i<length (link doc).
      attrs (link (ticked E tr w h doc) ! i) ''d''
        = Some (computeLink E (datum (link doc ! i)) tr (Finite 40) w h)"
  "\<forall>i<length (linkLabel doc).
      attrs (linkLabel (ticked E tr w h doc) ! i) ''text-anchor''
        = Some (Str (if repeated (datum (linkLabel doc ! i)) then ''start'' else ''end''))
    \<and> attrs (linkLabel (ticked E tr w h doc) ! i) ''x''
        = Some (NumberAttr (applyX E tr (xpos E (if repeated (datum (linkLabel doc ! i)) then Finite 30 else Finite 60)
                  (source (datum (linkLabel doc ! i))) (target (datum (linkLabel doc ! i))))))
    \<and> attrs (linkLabel (ticked E tr w h doc) ! i) ''y''
        = Some (NumberAttr (applyY E tr (ypos E (if repeated (datum (linkLabel doc ! i)) then Finite 30 else Finite 60)
                  (source (datum (linkLabel doc ! i))) (target (datum (linkLabel doc ! i))))))"
  by (simp_all add: ticked_node_nth ticked_link_nth ticked_linkLabel_nth)

lemma processHighlights_writes:
  "\<forall>i<length (node doc).
      styles (node (processHighlights g ls sel doc) ! i) ''opacity'' \<in> {Some (Num 1), Some (Num 0.15)}"
  "\<forall>i<length (link doc).
      styles (link (processHighlights g ls sel doc) ! i) ''stroke-opacity'' \<in> {Some (Num 1), Some (Num 0.15)}"
  "\<forall>i<length (linkLabel doc).
      styles (linkLabel (processHighlights g ls sel doc) ! i) ''opacity'' \<in> {Some (Num 1), Some (Num 0.15)}"
  by (cases sel; simp add: processHighlights_Some processHighlights_None styles_nth_style
        computeOpacity_def)+

text \<open>
  Claim C4, as the code has it. The distance function is a function of the link type and
  the depth of its argument. The tick handler and the highlight function return nothing
  and act on the elements of the selections they are given: \<open>ticked\<close> sets the
  attribute \<open>d\<close> of every link to its path, \<open>text-anchor\<close>, \<open>x\<close> and \<open>y\<close> of
  every link label and \<open>transform\<close> of every node; \<open>processHighlights\<close> sets the
  style \<open>opacity\<close> of every node and link label and \<open>stroke-opacity\<close> of every link
  to 1 or 0.15. Everything else is left as it was: the bound data, every other attribute
  and style, the number and order of the elements, and the \<open>everything\<close> group. (That
  equal arguments give equal results, and that nothing but the arguments is read, holds of
  every function of the logic, so of these.)
\<close>

theorem handlers_write_only_their_attributes:
  "(linkType d = linkType d' \<and> depth d = depth d' \<longrightarrow> getDistance d = getDistance d')
   \<and> (let doc' = ticked E tr w h doc
      in
       (\<forall>i<length (node doc).
          attrs (node doc' ! i) ''transform''
            = Some (computeTransform E tr (Finite 40) w h (datum (node doc ! i))))
       \<and> (\<forall>i<length (link doc).
          attrs (link doc' ! i) ''d'' = Some (computeLink E (datum (link doc ! i)) tr (Finite 40) w h))
       \<and> (\<forall>i<length (linkLabel doc).
          attrs (linkLabel doc' ! i) ''text-anchor''
            = Some (Str (if repeated (datum (linkLabel doc ! i)) then ''start'' else ''end''))
        \<and> attrs (linkLabel doc' ! i) ''x''
            = Some (NumberAttr (applyX E tr (xpos E (if repeated (datum (linkLabel doc ! i)) then Finite 30 else Finite 60)
                      (source (datum (linkLabel doc ! i))) (target (datum (linkLabel doc ! i))))))
        \<and> attrs (linkLabel doc' ! i) ''y''
            = Some (NumberAttr (applyY E tr (ypos E (if repeated (datum (linkLabel doc ! i)) then Finite 30 else Finite 60)
                      (source (datum (linkLabel doc ! i))) (target (datum (linkLabel doc ! i))))))))
   \<and> (let doc' = ticked E tr w h doc
      in
       everything doc' = everything doc
       \<and> map datum (node doc') = map datum (node doc)
       \<and> map styles (node doc') = map styles (node doc)
       \<and> map (\<lambda>e. attrs e |` (- {''transform''})) (node doc')
           = map (\<lambda>e. attrs e |` (- {''transform''})) (node doc)
       \<and> map datum (link doc') = map datum (link doc)
       \<and> map styles (link doc') = map styles (link doc)
       \<and> map (\<lambda>e. attrs e |` (- {''d''})) (link doc') = map (\<lambda>e. attrs e |` (- {''d''})) (link doc)
       \<and> map datum (linkLabel doc') = map datum (linkLabel doc)
       \<and> map styles (linkLabel doc') = map styles (linkLabel doc)
       \<and> map (\<lambda>e. attrs e |` (- {''text-anchor'', ''x'', ''y''})) (linkLabel doc')
           = map (\<lambda>e. attrs e |` (- {''text-anchor'', ''x'', ''y''})) (linkLabel doc))
   \<and> (let doc' = processHighlights g ls sel doc
      in
       (\<forall>i<length (node doc).
          styles (node doc' ! i) ''opacity'' \<in> {Some (Num 1), Some (Num 0.15)})
       \<and> (\<forall>i<length (link doc).
          styles (link doc' ! i) ''stroke-opacity'' \<in> {Some (Num 1), Some (Num 0.15)})
       \<and> (\<forall>i<length (linkLabel doc).
          styles (linkLabel doc' ! i) ''opacity'' \<in> {Some (Num 1), Some (Num 0.15)}))
   \<and> (let doc' = processHighlights g ls sel doc
      in
       everything doc' = everything doc
       \<and> map datum (node doc') = map datum (node doc)
       \<and> map attrs (node doc') = map attrs (node doc)
       \<and> map (\<lambda>e. styles e |` (- {''opacity''})) (node doc')
           = map (\<lambda>e. styles e |` (- {''opacity''})) (node doc)
       \<and> map datum (link doc') = map datum (link doc)
       \<and> map attrs (link doc') = map attrs (link doc)
       \<and> map (\<lambda>e. styles e |` (- {''stroke-opacity''})) (link doc')
           = map (\<lambda>e. styles e |` (- {''stroke-opacity''})) (link doc)
       \<and> map datum (linkLabel doc') = map datum (linkLabel doc)
       \<and> map attrs (linkLabel doc') = map attrs (linkLabel doc)
       \<and> map (\<lambda>e. styles e |` (- {''opacity''})) (linkLabel doc')
           = map (\<lambda>e. styles e |` (- {''opacity''})) (linkLabel doc))"
proof -
  have a: "linkType d = linkType d' \<and> depth d = depth d' \<longrightarrow> getDistance d = getDistance d'"
    using getDistance_cong [of d d'] by blast
  have tw: "let doc' = ticked E tr w h doc
      in
       (\<forall>i<length (node doc).
          attrs (node doc' ! i) ''transform''
            = Some (computeTransform E tr (Finite 40) w h (datum (node doc ! i))))
       \<and> (\<forall>i<length (link doc).
          attrs (link doc' ! i) ''d'' = Some (computeLink E (datum (link doc ! i)) tr (Finite 40) w h))
       \<and> (\<forall>i<length (linkLabel doc).
          attrs (linkLabel doc' ! i) ''text-anchor''
            = Some (Str (if repeated (datum (linkLabel doc ! i)) then ''start'' else ''end''))
        \<and> attrs (linkLabel doc' ! i) ''x''
            = Some (NumberAttr (applyX E tr (xpos E (if repeated (datum (linkLabel doc ! i)) then Finite 30 else Finite 60)
                      (source (datum (linkLabel doc ! i))) (target (datum (linkLabel doc ! i))))))
        \<and> attrs (linkLabel doc' ! i) ''y''
            = Some (NumberAttr (applyY E tr (ypos E (if repeated (datum (linkLabel doc ! i)) then Finite 30 else Finite 60)
                      (source (datum (linkLabel doc ! i))) (target (datum (linkLabel doc ! i)))))))"
    unfolding Let_def by (intro conjI ticked_writes)
  have tf: "let doc' = ticked E tr w h doc
      in
       everything doc' = everything doc
       \<and> map datum (node doc') = map datum (node doc)
       \<and> map styles (node doc') = map styles (node doc)
       \<and> map (\<lambda>e. attrs e |` (- {''transform''})) (node doc')
           = map (\<lambda>e. attrs e |` (- {''transform''})) (node doc)
       \<and> map datum (link doc') = map datum (link doc)
       \<and> map styles (link doc') = map styles (link doc)
       \<and> map (\<lambda>e. attrs e |` (- {''d''})) (link doc') = map (\<lambda>e. attrs e |` (- {''d''})) (link doc)
       \<and> map datum (linkLabel doc') = map datum (linkLabel doc)
       \<and> map styles (linkLabel doc') = map styles (linkLabel doc)
       \<and> map (\<lambda>e. attrs e |` (- {''text-anchor'', ''x'', ''y''})) (linkLabel doc')
           = map (\<lambda>e. attrs e |` (- {''text-anchor'', ''x'', ''y''})) (linkLabel doc)"
    unfolding Let_def by (simp only: ticked_frame simp_thms)
  have pw: "let doc' = processHighlights g ls sel doc
      in
       (\<forall>i<length (node doc).
          styles (node doc' ! i) ''opacity'' \<in> {Some (Num 1), Some (Num 0.15)})
       \<and> (\<forall>i<length (link doc).
          styles (link doc' ! i) ''stroke-opacity'' \<in> {Some (Num 1), Some (Num 0.15)})
       \<and> (\<forall>i<length (linkLabel doc).
          styles (linkLabel doc' ! i) ''opacity'' \<in> {Some (Num 1), Some (Num 0.15)})"
    unfolding Let_def by (intro conjI processHighlights_writes)
  have pf: "let doc' = processHighlights g ls sel doc
      in
       everything doc' = everything doc
       \<and> map datum (node doc') = map datum (node doc)
       \<and> map attrs (node doc') = map attrs (node doc)
       \<and> map (\<lambda>e. styles e |` (- {''opacity''})) (node doc')
           = map (\<lambda>e. styles e |` (- {''opacity''})) (node doc)
       \<and> map datum (link doc') = map datum (link doc)
       \<and> map attrs (link doc') = map attrs (link doc)
       \<and> map (\<lambda>e. styles e |` (- {''stroke-opacity''})) (link doc')
           = map (\<lambda>e. styles e |` (- {''stroke-opacity''})) (link doc)
       \<and> map datum (linkLabel doc') = map datum (linkLabel doc)
       \<and> map attrs (linkLabel doc') = map attrs (linkLabel doc)
       \<and> map (\<lambda>e. styles e |` (- {''opacity''})) (linkLabel doc')
           = map (\<lambda>e. styles e |` (- {''opacity''})) (linkLabel doc)"
    unfolding Let_def by (simp only: processHighlights_frame simp_thms)
  from a tw tf pw pf show ?thesis by (intro conjI)
qed

theorem handlers_write_only_their_attributes_witness:
  "linkType linkAB = linkType (linkAB\<lparr>source := nodeC, repeated := True\<rparr>)
   \<and> depth linkAB = depth (linkAB\<lparr>source := nodeC, repeated := True\<rparr>)
   \<and> getDistance linkAB = getDistance (linkAB\<lparr>source := nodeC, repeated := True\<rparr>)
   \<and> (1::nat) < length (linkLabel sampleDoc) \<and> (2::nat) < length (node sampleDoc)
   \<and> (0::nat) < length (link sampleDoc)
   \<and> attrs (linkLabel (ticked exactEngine zoomed (Finite 800) (Finite 600) sampleDoc) ! 1) ''text-anchor''
       = Some (Str ''start'')
   \<and> attrs (node (ticked exactEngine zoomed (Finite 800) (Finite 600) sampleDoc) ! 2) ''transform''
       = Some (Translate (Finite 744) (Finite 104))
   \<and> attrs (link (ticked exactEngine zoomed (Finite 800) (Finite 600) sampleDoc) ! 0) ''d''
       = Some (PathLine (Finite 210) (Finite 120) (Finite 810) (Finite 920))
   \<and> styles (node (processHighlights sampleGraph [linkAB] (Some nodeA) sampleDoc) ! 2) ''opacity''
       \<in> {Some (Num 1), Some (Num 0.15)}
   \<and> styles (link (processHighlights sampleGraph [linkAB] (Some nodeA) sampleDoc) ! 0) ''stroke-opacity''
       \<in> {Some (Num 1), Some (Num 0.15)}
   \<and> styles (linkLabel (processHighlights sampleGraph [linkAB] (Some nodeA) sampleDoc) ! 1) ''opacity''
       \<in> {Some (Num 1), Some (Num 0.15)}"
proof -
  note T = handlers_write_only_their_attributes
    [of linkAB "linkAB\<lparr>source := nodeC, repeated := True\<rparr>" exactEngine zoomed "Finite 800" "Finite 600"
        sampleDoc sampleGraph "[linkAB]" "Some nodeA", unfolded Let_def]
  note G = T [THEN conjunct1]
  note W = T [THEN conjunct2, THEN conjunct1]
  note WN = W [THEN conjunct1, rule_format]
  note WL = W [THEN conjunct2, THEN conjunct1, rule_format]
  note WA = W [THEN conjunct2, THEN conjunct2, rule_format, THEN conjunct1]
  note H = T [THEN conjunct2, THEN conjunct2, THEN conjunct2, THEN conjunct1]
  note HN = H [THEN conjunct1, rule_format]
  note HL = H [THEN conjunct2, THEN conjunct1, rule_format]
  note HA = H [THEN conjunct2, THEN conjunct2, rule_format]
  have ll: "(1::nat) < length (linkLabel sampleDoc)" and n: "(2::nat) < length (node sampleDoc)"
    and l: "(0::nat) < length (link sampleDoc)"
    by (simp_all add: sampleDoc_def)
  have d: "datum (linkLabel sampleDoc ! 1) = linkBC" "datum (node sampleDoc ! 2) = nodeC"
    "datum (link sampleDoc ! 0) = linkAB"
    by (simp_all add: sampleDoc_def blank_def)
  have g: "getDistance linkAB = getDistance (linkAB\<lparr>source := nodeC, repeated := True\<rparr>)"
    using G by simp
  have a: "attrs (linkLabel (ticked exactEngine zoomed (Finite 800) (Finite 600) sampleDoc) ! 1) ''text-anchor''
       = Some (Str ''start'')"
    unfolding WA [OF ll] d by (simp add: linkBC_def)
  have b: "attrs (node (ticked exactEngine zoomed (Finite 800) (Finite 600) sampleDoc) ! 2) ''transform''
       = Some (Translate (Finite 744) (Finite 104))"
    unfolding WN [OF n] d by (simp add: computeTransform_explicit nodeC_def zoomed_def exact_arith)
  have c: "attrs (link (ticked exactEngine zoomed (Finite 800) (Finite 600) sampleDoc) ! 0) ''d''
       = Some (PathLine (Finite 210) (Finite 120) (Finite 810) (Finite 920))"
    unfolding WL [OF l] d
    by (simp add: computeLink_explicit Let_def linkAB_def nodeA_def nodeB_def zoomed_def exact_arith)
  from g a b c HN [OF n] HL [OF l] HA [OF ll] ll n l show ?thesis by simp
qed

text \<open>
  Claim C4 as stated fails: the handlers do change what they are given. On the sample
  document, whose elements have no attribute and no style, \<open>ticked\<close> leaves the first
  node with a \<open>transform\<close> attribute and \<open>processHighlights\<close> leaves it with an
  \<open>opacity\<close> style.
\<close>

theorem handlers_mutate_counterexample:
  "attrs (node sampleDoc ! 0) ''transform'' = None
   \<and> attrs (node (ticked exactEngine zoomIdentity (Finite 800) (Finite 600) sampleDoc) ! 0) ''transform''
       = Some (Translate (Finite 84) (Finite 34))
   \<and> styles (node sampleDoc ! 0) ''opacity'' = None
   \<and> styles (node (processHighlights sampleGraph [] None sampleDoc) ! 0) ''opacity'' = Some (Num 1)"
  by (simp add: ticked_node nth_attr processHighlights_None nth_style computeTransform_explicit
        sampleDoc_def blank_def nodeA_def zoomIdentity_def exact_arith)

text \<open>
  Claim C6. \<open>updateForces\<close> makes the simulation with exactly seven forces: \<open>link\<close>,
  a link force with id \<open>ieeeAddr\<close>, distance \<open>getDistance\<close> and strength 0.2;
  \<open>charge\<close>, a many-body force of strength \<open>-200\<close> between the distances 200 and 1000;
  \<open>repelForce\<close>, a many-body force of strength \<open>-140\<close> between the distances 20 and
  50; \<open>collisionForce\<close>, a collision force of radius 40 and strength 1; \<open>center\<close>, a
  centering force at \<open>(width / 2, height / 2)\<close>; and \<open>x\<close> and \<open>y\<close>, positioning
  forces with no setting changed from the default.
\<close>

theorem updateForces_parameters:
  "let sim = this_simulation (updateForces self w h)
   in dom (forces sim) =
        {''link'', ''charge'', ''collisionForce'', ''repelForce'', ''center'', ''x'', ''y''}
    \<and> forces sim ''link'' =
        Some \<lparr>kind = KLink,
              settings = [''id'' \<mapsto> IdAccessor ieeeAddr, ''distance'' \<mapsto> DistanceAccessor getDistance,
                          ''strength'' \<mapsto> Value 0.2]\<rparr>
    \<and> forces sim ''charge'' =
        Some \<lparr>kind = KManyBodyReuse,
              settings = [''strength'' \<mapsto> Value (- 200), ''distanceMin'' \<mapsto> Value 200,
                          ''distanceMax'' \<mapsto> Value 1000]\<rparr>
    \<and> forces sim ''repelForce'' =
        Some \<lparr>kind = KManyBodyReuse,
              settings = [''strength'' \<mapsto> Value (- 140), ''distanceMin'' \<mapsto> Value 20,
                          ''distanceMax'' \<mapsto> Value 50]\<rparr>
    \<and> forces sim ''collisionForce'' =
        Some \<lparr>kind = KCollide, settings = [''radius'' \<mapsto> Value 40, ''strength'' \<mapsto> Value 1]\<rparr>
    \<and> forces sim ''center'' =
        Some \<lparr>kind = KCenter, settings = [''x'' \<mapsto> Value (w / 2), ''y'' \<mapsto> Value (h / 2)]\<rparr>
    \<and> forces sim ''x'' = Some \<lparr>kind = KX, settings = Map.empty\<rparr>
    \<and> forces sim ''y'' = Some \<lparr>kind = KY, settings = Map.empty\<rparr>
    \<and> this_transform (updateForces self w h) = this_transform self"
proof -
  have charge: "[''distanceMin'' \<mapsto> Value 200, ''distanceMax'' \<mapsto> Value 1000, ''strength'' \<mapsto> Value (- 200)]
      = [''strength'' \<mapsto> Value (- 200), ''distanceMin'' \<mapsto> Value 200, ''distanceMax'' \<mapsto> Value 1000]"
    by (rule ext) simp
  have repel: "[''strength'' \<mapsto> Value (- 140), ''distanceMax'' \<mapsto> Value 50, ''distanceMin'' \<mapsto> Value 20]
      = [''strength'' \<mapsto> Value (- 140), ''distanceMin'' \<mapsto> Value 20, ''distanceMax'' \<mapsto> Value 50]"
    by (rule ext) simp
  have sim: "this_simulation (updateForces self w h) =
      force ''y'' forceY
        (force ''x'' forceX
          (force ''center'' (forceCenter (w / 2) (h / 2))
            (force ''repelForce'' (distanceMin 20 (distanceMax 50 (strength (- 140) forceManyBodyReuse)))
              (force ''collisionForce'' (strength 1 (forceCollide 40))
                (force ''charge'' (strength (- 200) (distanceMax 1000 (distanceMin 200 forceManyBodyReuse)))
                  (force ''link'' (strength 0.2 (distance getDistance (set_id (\<lambda>d. ieeeAddr d) forceLink)))
                    forceSimulation))))))"
    by (simp add: updateForces_def Let_def)
  have f: "forces (force name F s) = (forces s)(name \<mapsto> F)" for name F s
    by (simp add: force_def)
  have tr: "this_transform (updateForces self w h) = this_transform self"
    by (simp add: updateForces_def Let_def)
  show ?thesis
    unfolding Let_def sim f tr
    by (simp add: forceSimulation_def forceLink_def forceManyBodyReuse_def forceCollide_def
          forceCenter_def forceX_def forceY_def set_id_def distance_def strength_def
          distanceMin_def distanceMax_def charge repel insert_commute)
qed


text \<open>
  Claim C7. On a zoom event with transform \<open>tr\<close>, the handler sets the \<open>transform\<close>
  attribute of the \<open>everything\<close> group to \<open>tr\<close>, stores \<open>tr\<close> as the component's
  transform, and writes the position of every node, link and link label anew under
  \<open>tr\<close>, which is the tick handler run with \<open>tr\<close>.
\<close>

theorem zoomHandler_effect:
  "let after = zoomHandler E w h tr (self, doc)
   in this_transform (fst after) = tr
    \<and> this_simulation (fst after) = this_simulation self
    \<and> length (everything (snd after)) = length (everything doc)
    \<and> (\<forall>i<length (everything doc). attrs (everything (snd after) ! i) ''transform'' = Some (TransformOf tr))
    \<and> length (node (snd after)) = length (node doc)
    \<and> length (link (snd after)) = length (link doc)
    \<and> length (linkLabel (snd after)) = length (linkLabel doc)
    \<and> (\<forall>i<length (node doc).
          attrs (node (snd after) ! i) ''transform''
            = Some (computeTransform E tr (Finite 40) w h (datum (node doc ! i))))
    \<and> (\<forall>i<length (link doc).
          attrs (link (snd after) ! i) ''d'' = Some (computeLink E (datum (link doc ! i)) tr (Finite 40) w h))
    \<and> (\<forall>i<length (linkLabel doc).
          attrs (linkLabel (snd after) ! i) ''x''
            = Some (NumberAttr (applyX E tr (xpos E (if repeated (datum (linkLabel doc ! i)) then Finite 30 else Finite 60)
                      (source (datum (linkLabel doc ! i))) (target (datum (linkLabel doc ! i))))))
        \<and> attrs (linkLabel (snd after) ! i) ''y''
            = Some (NumberAttr (applyY E tr (ypos E (if repeated (datum (linkLabel doc ! i)) then Finite 30 else Finite 60)
                      (source (datum (linkLabel doc ! i))) (target (datum (linkLabel doc ! i)))))))
    \<and> snd after = ticked E tr w h (doc\<lparr>everything := attr ''transform'' (\<lambda>d. TransformOf tr) (everything doc)\<rparr>)"
proof -
  let ?doc1 = "doc\<lparr>everything := attr ''transform'' (\<lambda>d. TransformOf tr) (everything doc)\<rparr>"
  have z: "zoomHandler E w h tr (self, doc) = (self\<lparr>this_transform := tr\<rparr>, ticked E tr w h ?doc1)"
    by (simp add: zoomHandler_def Let_def)
  have s: "node ?doc1 = node doc" "link ?doc1 = link doc" "linkLabel ?doc1 = linkLabel doc"
    "everything ?doc1 = attr ''transform'' (\<lambda>d. TransformOf tr) (everything doc)"
    by simp_all
  show ?thesis
    unfolding Let_def z fst_conv snd_conv
    using ticked_writes [of ?doc1 E tr w h] ticked_length [of E tr w h ?doc1]
    unfolding s
    by (simp add: ticked_everything length_attr nth_attr)
qed

theorem zoomHandler_effect_witness:
  "(0::nat) < length (everything sampleDoc) \<and> (2::nat) < length (node sampleDoc)
   \<and> (0::nat) < length (link sampleDoc) \<and> (1::nat) < length (linkLabel sampleDoc)
   \<and> this_transform (fst (zoomHandler exactEngine (Finite 800) (Finite 600) zoomed (component0, sampleDoc))) = zoomed
   \<and> attrs (everything (snd (zoomHandler exactEngine (Finite 800) (Finite 600) zoomed (component0, sampleDoc))) ! 0)
        ''transform'' = Some (TransformOf zoomed)
   \<and> attrs (node (snd (zoomHandler exactEngine (Finite 800) (Finite 600) zoomed (component0, sampleDoc))) ! 2)
        ''transform'' = Some (Translate (Finite 744) (Finite 104))
   \<and> attrs (link (snd (zoomHandler exactEngine (Finite 800) (Finite 600) zoomed (component0, sampleDoc))) ! 0)
        ''d'' = Some (PathLine (Finite 210) (Finite 120) (Finite 810) (Finite 920))
   \<and> attrs (linkLabel (snd (zoomHandler exactEngine (Finite 800) (Finite 600) zoomed (component0, sampleDoc))) ! 1)
        ''x'' = Some (NumberAttr (applyX exactEngine zoomed (xpos exactEngine (Finite 30) nodeB nodeC)))"
proof -
  note T = zoomHandler_effect [of exactEngine "Finite 800" "Finite 600" zoomed component0 sampleDoc,
    unfolded Let_def]
  note A = T [THEN conjunct1]
  note B = T [THEN conjunct2, THEN conjunct2, THEN conjunct2]
  note EV = B [THEN conjunct1, rule_format]
  note C = B [THEN conjunct2, THEN conjunct2, THEN conjunct2, THEN conjunct2]
  note N = C [THEN conjunct1, rule_format]
  note L = C [THEN conjunct2, THEN conjunct1, rule_format]
  note LL = C [THEN conjunct2, THEN conjunct2, THEN conjunct1, rule_format, THEN conjunct1]
  have e: "(0::nat) < length (everything sampleDoc)" and n: "(2::nat) < length (node sampleDoc)"
    and l: "(0::nat) < length (link sampleDoc)" and ll: "(1::nat) < length (linkLabel sampleDoc)"
    by (simp_all add: sampleDoc_def)
  have d: "datum (linkLabel sampleDoc ! 1) = linkBC" "datum (node sampleDoc ! 2) = nodeC"
    "datum (link sampleDoc ! 0) = linkAB"
    by (simp_all add: sampleDoc_def blank_def)
  have b: "attrs (node (snd (zoomHandler exactEngine (Finite 800) (Finite 600) zoomed (component0, sampleDoc))) ! 2)
        ''transform'' = Some (Translate (Finite 744) (Finite 104))"
    unfolding N [OF n] d by (simp add: computeTransform_explicit nodeC_def zoomed_def exact_arith)
  have c: "attrs (link (snd (zoomHandler exactEngine (Finite 800) (Finite 600) zoomed (component0, sampleDoc))) ! 0)
        ''d'' = Some (PathLine (Finite 210) (Finite 120) (Finite 810) (Finite 920))"
    unfolding L [OF l] d
    by (simp add: computeLink_explicit Let_def linkAB_def nodeA_def nodeB_def zoomed_def exact_arith)
  have f: "attrs (linkLabel (snd (zoomHandler exactEngine (Finite 800) (Finite 600) zoomed (component0, sampleDoc))) ! 1)
        ''x'' = Some (NumberAttr (applyX exactEngine zoomed (xpos exactEngine (Finite 30) nodeB nodeC)))"
    unfolding LL [OF ll] d by (simp add: linkBC_def)
  from A EV [OF e] b c f e n l ll show ?thesis by simp
qed

end
